theory Spec2Isabelle
  imports Main "HOL-Library.AList"
begin

section \<open>Values\<close>

text \<open>
  The values \<^verbatim>\<open>JSON.parse\<close> can return. A number is never inspected by the client, so
  it is carried as an integer. An object is the list of its own properties in the order
  the runtime enumerates them.
\<close>

datatype json =
    JNull
  | JBool bool
  | JNum int
  | JStr string
  | JArr "json list"
  | JObj "(string \<times> json) list"

text \<open>
  Error objects the runtime creates: \<^verbatim>\<open>JSON.parse\<close> throws a \<^verbatim>\<open>SyntaxError\<close>, a
  property read on \<^verbatim>\<open>null\<close> or a call of something that is not a function throws a
  \<^verbatim>\<open>TypeError\<close>, and the response stream reports its own errors.
\<close>

datatype js_error = SyntaxError | TypeError | StreamError string

text \<open>
  What is thrown or handed to a callback: a plain value (\<^verbatim>\<open>null\<close> is \<open>Val JNull\<close>, the
  literal \<^verbatim>\<open>{}\<close> is \<open>Val (JObj [])\<close>, a thrown string is \<open>Val (JStr s)\<close>) or an error object.
\<close>

datatype js_value = Val json | Exn js_error

text \<open>
  Primitive property values of parameter and header objects: strings, and the number
  stored under \<^verbatim>\<open>Content-Length\<close>.
\<close>

datatype prim = Str string | Num nat

type_synonym obj = "(string \<times> prim) list"

type_synonym ref = nat

section \<open>Callbacks, deferred values and the world\<close>

type_synonym call = "js_value \<times> js_value"

text \<open>
  A user callback is known by its behaviour: given the calls made so far and the two
  arguments \<^verbatim>\<open>(error, value)\<close> it returns normally (\<open>None\<close>) or throws (\<open>Some v\<close>).
\<close>

type_synonym callback = "call list \<Rightarrow> js_value \<Rightarrow> js_value \<Rightarrow> js_value option"

text \<open>
  A completion function is a user callback or the function the dual-mode adapter makes
  for the deferred value at address \<open>d\<close>.
\<close>

datatype completion = User callback | Settle ref

datatype promise_state = Pending | Resolved js_value | Rejected js_value

text \<open>An argument as a JavaScript caller passes it.\<close>

datatype arg = ArgUndefined | ArgObject obj | ArgFunction completion

text \<open>
  The descriptor handed to \<^verbatim>\<open>protocols[protocolName].request\<close>, with the header object's
  contents as the transport reads them in that call, the body written with
  \<^verbatim>\<open>req.write\<close>, and the callback the response listener closes over.
\<close>

record request =
  req_protocol :: string
  req_host :: string
  req_path :: string
  req_method :: string
  req_headers :: obj
  req_body :: string
  req_handler :: completion

text \<open>
  The mutable state: header objects by address, deferred values by address, the next free
  address, the requests handed to the transport, the log of every completion call, and
  the lines written with \<^verbatim>\<open>console.warn\<close>.
\<close>

record world =
  heap :: "ref \<Rightarrow> obj"
  promises :: "ref \<Rightarrow> promise_state"
  next_ref :: ref
  sent :: "request list"
  calls :: "call list"
  console :: "string list"

text \<open>
  The runtime functions the client calls. \<open>JSON_parse\<close> returns \<open>None\<close> where
  \<^verbatim>\<open>JSON.parse\<close> throws its \<^verbatim>\<open>SyntaxError\<close>. \<open>executor_traps\<close> says what the configured
  promise constructor does with a failure raised while the unit of work starts: turn it
  into a rejection (\<open>True\<close>, as a native promise executor does) or let it escape.
\<close>

record platform =
  querystring_stringify :: "obj \<Rightarrow> string"
  encodeURI :: "string \<Rightarrow> string"
  JSON_parse :: "string \<Rightarrow> json option"
  executor_traps :: bool

section \<open>The dual-mode result adapter\<close>

text \<open>
  Modelled from the spec: the completion function that \<^verbatim>\<open>utils.promiseOrCallback\<close>, which
  is not among the sources, makes for its deferred value: "reject it when the completion
  function is called with a non-null error, resolve it with the value otherwise". A
  deferred value that is settled already keeps its state.
\<close>

definition settle :: "promise_state \<Rightarrow> js_value \<Rightarrow> js_value \<Rightarrow> promise_state" where
  "settle s e v =
     (case s of
        Pending \<Rightarrow> if e = Val JNull then Resolved v else Rejected e
      | Resolved x \<Rightarrow> Resolved x
      | Rejected x \<Rightarrow> Rejected x)"

text \<open>
  Calling a completion function: the call is logged; a user callback may throw, the
  adapter's own function settles its deferred value and returns.
\<close>

definition invoke :: "completion \<Rightarrow> js_value \<Rightarrow> js_value \<Rightarrow> world \<Rightarrow> js_value option \<times> world" where
  "invoke c e v w =
     (case c of
        User cb \<Rightarrow> (cb (calls w) e v, w\<lparr>calls := calls w @ [(e, v)]\<rparr>)
      | Settle d \<Rightarrow>
          (None, w\<lparr>calls := calls w @ [(e, v)],
                    promises := (promises w)(d := settle (promises w d) e v)\<rparr>))"

section \<open>The response listeners of \<^verbatim>\<open>_get\<close> and \<^verbatim>\<open>_post\<close>\<close>

text \<open>
  \<^verbatim>\<open>json.hasOwnProperty('error')\<close> on a parsed value. Reading a property of \<^verbatim>\<open>null\<close>
  throws. An object with an own member named \<^verbatim>\<open>hasOwnProperty\<close> shadows the inherited
  method with a parsed value, which is never a function, so the call throws. Booleans,
  numbers, strings and arrays have no own property named \<^verbatim>\<open>error\<close>.
\<close>

fun hasOwnProperty_error :: "json \<Rightarrow> js_error + bool" where
  "hasOwnProperty_error JNull = Inl TypeError"
| "hasOwnProperty_error (JObj kvs) =
     (if ''hasOwnProperty'' \<in> set (map fst kvs) then Inl TypeError
      else Inr (''error'' \<in> set (map fst kvs)))"
| "hasOwnProperty_error (JBool b) = Inr False"
| "hasOwnProperty_error (JNum n) = Inr False"
| "hasOwnProperty_error (JStr s) = Inr False"
| "hasOwnProperty_error (JArr xs) = Inr False"

text \<open>
  The body of the \<^verbatim>\<open>try\<close> block of the \<^verbatim>\<open>'end'\<close> listener. The result is the value
  thrown inside the block, if any: by the parser, by the property test, or by the
  callback itself, which is called inside the block.
\<close>

definition try_end :: "platform \<Rightarrow> completion \<Rightarrow> string \<Rightarrow> world \<Rightarrow> js_value option \<times> world" where
  "try_end P callback data w =
     (case JSON_parse P data of
        None \<Rightarrow> (Some (Exn SyntaxError), w)
      | Some json \<Rightarrow>
          (case hasOwnProperty_error json of
             Inl err \<Rightarrow> (Some (Exn err), w)
           | Inr has \<Rightarrow>
               if has then invoke callback (Val json) (Val (JObj [])) w
               else invoke callback (Val JNull) (Val json) w))"

text \<open>
  The \<^verbatim>\<open>'end'\<close> listener: the \<^verbatim>\<open>catch\<close> clause calls the callback with whatever the
  block threw. What the callback throws there leaves the listener.
\<close>

definition on_end :: "platform \<Rightarrow> completion \<Rightarrow> string \<Rightarrow> world \<Rightarrow> js_value option \<times> world" where
  "on_end P callback data w =
     (case try_end P callback data w of
        (None, w') \<Rightarrow> (None, w')
      | (Some err, w') \<Rightarrow> invoke callback err (Val (JObj [])) w')"

text \<open>The \<^verbatim>\<open>'error'\<close> listener.\<close>

definition on_error :: "completion \<Rightarrow> js_value \<Rightarrow> world \<Rightarrow> js_value option \<times> world" where
  "on_error callback err w = invoke callback err (Val (JObj [])) w"

text \<open>
  The events of a response stream, with each chunk as the text \<^verbatim>\<open>data += chunk\<close>
  appends. \<open>respond\<close> runs the three listeners over a sequence of events, starting from
  the accumulated \<open>data\<close>; an exception that leaves a listener is uncaught and ends the
  run.
\<close>

datatype event = Data string | End | Error js_value

fun respond :: "platform \<Rightarrow> completion \<Rightarrow> event list \<Rightarrow> string \<Rightarrow> world \<Rightarrow> js_value option \<times> world" where
  "respond P callback [] data w = (None, w)"
| "respond P callback (Data chunk # es) data w = respond P callback es (data @ chunk) w"
| "respond P callback (End # es) data w =
     (case on_end P callback data w of
        (None, w') \<Rightarrow> respond P callback es data w'
      | (Some ex, w') \<Rightarrow> (Some ex, w'))"
| "respond P callback (Error err # es) data w =
     (case on_error callback err w of
        (None, w') \<Rightarrow> respond P callback es data w'
      | (Some ex, w') \<Rightarrow> (Some ex, w'))"

section \<open>The client\<close>

text \<open>
  \<^verbatim>\<open>this.options\<close>. \<open>headers\<close> is the address of the header object, so that a write
  through another reference to the same object is seen here. An option that is \<open>None\<close>
  is not an own property of the options object.
\<close>

record client_options =
  headers :: ref
  callback_url :: "string option"
  rest_base :: string
  cookie_options :: obj
  cookie_secret :: "string option"
  protocol :: "string option"
  app_id :: "string option"
  access_token :: "string option"

record client =
  options :: client_options

text \<open>The value a method returns.\<close>

datatype js_ret = RetThis client | RetDeferred ref | RetUndefined

text \<open>The header object literal of the constructor's \<^verbatim>\<open>defaults\<close>.\<close>

definition default_headers :: obj where
  "default_headers =
     [(''Accept'', Str ''*/*''),
      (''Content-Type'', Str ''application/x-www-form-urlencoded''),
      (''Connection'', Str ''close''),
      (''User-Agent'', Str ''node-bangumi/1.0.0'')]"

text \<open>
  The order of the own properties of an object. The runtime enumerates the keys that are
  array indices first, by ascending value, and the other keys after them in the order of
  their creation. An array index is the decimal numeral, without leading zero, of a number
  below \<open>2^32 - 1\<close>.
\<close>

fun digit_value :: "char \<Rightarrow> nat option" where
  "digit_value c =
     map_of [(CHR ''0'', 0), (CHR ''1'', 1), (CHR ''2'', 2), (CHR ''3'', 3), (CHR ''4'', 4),
             (CHR ''5'', 5), (CHR ''6'', 6), (CHR ''7'', 7), (CHR ''8'', 8), (CHR ''9'', 9)] c"

fun digits_value :: "nat \<Rightarrow> string \<Rightarrow> nat option" where
  "digits_value acc [] = Some acc"
| "digits_value acc (c # cs) =
     (case digit_value c of
        None \<Rightarrow> None
      | Some d \<Rightarrow> digits_value (10 * acc + d) cs)"

fun array_index :: "string \<Rightarrow> nat option" where
  "array_index [] = None"
| "array_index (c # cs) =
     (if c = CHR ''0'' \<and> cs \<noteq> [] then None
      else (case digits_value 0 (c # cs) of
              None \<Rightarrow> None
            | Some n \<Rightarrow> if n < 4294967295 then Some n else None))"

text \<open>
  A new property whose key is the array index \<open>n\<close> goes before the first property that is
  not an array index below \<open>n\<close>.
\<close>

fun insert_index :: "string \<Rightarrow> nat \<Rightarrow> 'v \<Rightarrow> (string \<times> 'v) list \<Rightarrow> (string \<times> 'v) list" where
  "insert_index k n v [] = [(k, v)]"
| "insert_index k n v ((k', v') # al) =
     (case array_index k' of
        None \<Rightarrow> (k, v) # (k', v') # al
      | Some m \<Rightarrow> if m < n then (k', v') # insert_index k n v al else (k, v) # (k', v') # al)"

text \<open>
  The assignment \<^verbatim>\<open>object[k] = v\<close>: a property that exists keeps its place and gets the
  value; a new one is put where the enumeration order has it.
\<close>

definition assign :: "string \<Rightarrow> 'v \<Rightarrow> (string \<times> 'v) list \<Rightarrow> (string \<times> 'v) list" where
  "assign k v al =
     (if k \<in> set (map fst al) then AList.update k v al
      else (case array_index k of
              None \<Rightarrow> al @ [(k, v)]
            | Some n \<Rightarrow> insert_index k n v al))"

text \<open>
  Modelled from the spec: \<^verbatim>\<open>utils.merge\<close> is not among the sources. The spec calls it the
  "configuration merger: combines user-supplied options with defaults", the options
  "merged over defaults": each property of the second object, in the order of their
  enumeration, is assigned to the first object, which is returned.
\<close>

definition utils_merge :: "obj \<Rightarrow> obj \<Rightarrow> obj" where
  "utils_merge defaults opts = fold (\<lambda>(k, v). assign k v) opts defaults"

text \<open>
  The own properties of a parameters argument: \<^verbatim>\<open>querystring.stringify\<close> and the merge
  find none in a value that is not an object.
\<close>

fun own_props :: "arg \<Rightarrow> obj" where
  "own_props (ArgObject ps) = ps"
| "own_props ArgUndefined = []"
| "own_props (ArgFunction f) = []"

text \<open>\<^verbatim>\<open>this.options.protocol || 'https'\<close>: a missing or empty name is replaced.\<close>

definition protocolName :: "client \<Rightarrow> string" where
  "protocolName this =
     (case protocol (options this) of
        None \<Rightarrow> ''https''
      | Some p \<Rightarrow> if p = [] then ''https'' else p)"

text \<open>
  \<^verbatim>\<open>protocols[protocolName].request(...)\<close> followed by the writes and \<^verbatim>\<open>req.end()\<close>: the
  table has the two entries \<^verbatim>\<open>http\<close> and \<^verbatim>\<open>https\<close>; under any other name there is no
  \<^verbatim>\<open>request\<close> function to call and a \<^verbatim>\<open>TypeError\<close> is thrown.
\<close>

definition transport_request :: "request \<Rightarrow> world \<Rightarrow> js_value option \<times> world" where
  "transport_request r w =
     (if req_protocol r = ''http'' \<or> req_protocol r = ''https''
      then (None, w\<lparr>sent := sent w @ [r]\<rparr>)
      else (Some (Exn TypeError), w))"

text \<open>
  The first lines of both executors: a function in the place of the parameters is the
  callback, and the parameters are then \<^verbatim>\<open>{}\<close>.
\<close>

definition shift_args :: "arg \<Rightarrow> arg \<Rightarrow> arg \<times> arg" where
  "shift_args params callback =
     (case params of
        ArgFunction f \<Rightarrow> (ArgObject [], ArgFunction f)
      | ArgObject ps \<Rightarrow> (params, callback)
      | ArgUndefined \<Rightarrow> (params, callback))"

text \<open>
  \<^verbatim>\<open>options.headers['Authorization'] = 'Bearer ' + this.options.access_token\<close>, a write to
  the object at address \<open>h\<close>, when the options have an access token.
\<close>

definition set_authorization :: "client \<Rightarrow> ref \<Rightarrow> world \<Rightarrow> world" where
  "set_authorization this h w =
     (case access_token (options this) of
        None \<Rightarrow> w
      | Some t \<Rightarrow>
          w\<lparr>heap := (heap w)(h := assign ''Authorization'' (Str (''Bearer '' @ t)) (heap w h))\<rparr>)"

section \<open>The request executors\<close>

text \<open>
  \<^verbatim>\<open>Bangumi.prototype._get\<close>, here \<open>priv_get\<close> (and \<open>priv_post\<close> for \<^verbatim>\<open>_post\<close>), since a
  name cannot start with an underscore. The result is the value thrown (\<open>Inl\<close>) or the
  value returned (\<open>Inr\<close>). The request's \<^verbatim>\<open>headers\<close> is the very object of
  \<^verbatim>\<open>this.options.headers\<close>, so the authorization header is written into the client's own
  header object.
\<close>

definition priv_get :: "platform \<Rightarrow> client \<Rightarrow> string \<Rightarrow> arg \<Rightarrow> arg \<Rightarrow> world \<Rightarrow> (js_value + js_ret) \<times> world" where
  "priv_get P this url params0 callback0 w =
     (case shift_args params0 callback0 of
        (params, ArgUndefined) \<Rightarrow> (Inl (Val (JStr ''FAIL: INVALID CALLBACK.'')), w)
      | (params, ArgObject x) \<Rightarrow> (Inl (Val (JStr ''FAIL: INVALID CALLBACK.'')), w)
      | (params, ArgFunction callback) \<Rightarrow>
          if take 1 url \<noteq> ''/'' then (Inl (Val (JStr ''FAIL: INVALID URL.'')), w)
          else
            let params' =
                  (case app_id (options this) of
                     Some a \<Rightarrow> utils_merge [(''source'', Str a)] (own_props params)
                   | None \<Rightarrow> own_props params);
                qs = querystring_stringify P params';
                h = headers (options this);
                w1 = set_authorization this h w;
                r = \<lparr>req_protocol = protocolName this,
                     req_host = rest_base (options this),
                     req_path = encodeURI P (url @ (if qs \<noteq> [] then ''?'' else []) @ qs),
                     req_method = ''GET'',
                     req_headers = heap w1 h,
                     req_body = [],
                     req_handler = callback\<rparr>
            in (case transport_request r w1 of
                  (Some ex, w2) \<Rightarrow> (Inl ex, w2)
                | (None, w2) \<Rightarrow> (Inr (RetThis this), w2)))"

text \<open>
  \<^verbatim>\<open>Bangumi.prototype._post\<close>. The headers are a new object, the result of merging the
  client's headers into the literal that holds \<^verbatim>\<open>Content-Length\<close>; the application
  identifier goes to the path.
\<close>

definition priv_post :: "platform \<Rightarrow> client \<Rightarrow> string \<Rightarrow> arg \<Rightarrow> arg \<Rightarrow> world \<Rightarrow> (js_value + js_ret) \<times> world" where
  "priv_post P this url params0 callback0 w =
     (case shift_args params0 callback0 of
        (params, ArgUndefined) \<Rightarrow> (Inl (Val (JStr ''FAIL: INVALID CALLBACK.'')), w)
      | (params, ArgObject x) \<Rightarrow> (Inl (Val (JStr ''FAIL: INVALID CALLBACK.'')), w)
      | (params, ArgFunction callback) \<Rightarrow>
          if take 1 url \<noteq> ''/'' then (Inl (Val (JStr ''FAIL: INVALID URL.'')), w)
          else
            let post_data = querystring_stringify P (own_props params);
                h = next_ref w;
                w0 = w\<lparr>next_ref := Suc h,
                       heap := (heap w)(h := utils_merge [(''Content-Length'', Num (length post_data))]
                                                (heap w (headers (options this))))\<rparr>;
                w1 = set_authorization this h w0;
                path = encodeURI P url @
                  (case app_id (options this) of
                     Some a \<Rightarrow> ''?'' @ querystring_stringify P [(''source'', Str a)]
                   | None \<Rightarrow> []);
                r = \<lparr>req_protocol = protocolName this,
                     req_host = rest_base (options this),
                     req_path = path,
                     req_method = ''POST'',
                     req_headers = heap w1 h,
                     req_body = post_data,
                     req_handler = callback\<rparr>
            in (case transport_request r w1 of
                  (Some ex, w2) \<Rightarrow> (Inl ex, w2)
                | (None, w2) \<Rightarrow> (Inr (RetThis this), w2)))"

section \<open>The public executors\<close>

text \<open>
  What a promise constructor that traps the failure of its executor does with it: the
  deferred value is rejected with the value thrown, unless it is settled already.
\<close>

definition reject :: "promise_state \<Rightarrow> js_value \<Rightarrow> promise_state" where
  "reject s ex =
     (case s of
        Pending \<Rightarrow> Rejected ex
      | Resolved x \<Rightarrow> Resolved x
      | Rejected x \<Rightarrow> Rejected x)"

text \<open>
  Modelled from the spec: the branch of \<^verbatim>\<open>utils.promiseOrCallback\<close>, which is not among
  the sources, for a call without callback: "return a deferred value: reject it when the
  completion function is called with a non-null error, resolve it with the value
  otherwise". A new deferred value is made, pending, and the unit of work is run with its
  completion function. The spec does not say what becomes of a failure raised by the unit
  of work itself: that is the promise constructor's choice, \<open>executor_traps\<close>.
\<close>

definition without_callback ::
  "platform \<Rightarrow> (completion \<Rightarrow> world \<Rightarrow> (js_value + js_ret) \<times> world) \<Rightarrow> world
     \<Rightarrow> (js_value + js_ret) \<times> world" where
  "without_callback P fn w =
     (let d = next_ref w;
          w0 = w\<lparr>next_ref := Suc d, promises := (promises w)(d := Pending)\<rparr>
      in case fn (Settle d) w0 of
           (Inr r, w') \<Rightarrow> (Inr (RetDeferred d), w')
         | (Inl ex, w') \<Rightarrow>
             if executor_traps P
             then (Inr (RetDeferred d), w'\<lparr>promises := (promises w')(d := reject (promises w' d) ex)\<rparr>)
             else (Inl ex, w'))"

text \<open>
  Modelled from the spec: \<^verbatim>\<open>utils.promiseOrCallback\<close>, which is not among the sources. The
  spec: "accepts an optional callback and a unit of work that itself accepts a completion
  function taking (error, value). If a callback was supplied, invoke it with (error,
  value) directly. If not, return a deferred value". With a callback, the unit of work is
  run with the callback itself, and the value of the call is the unit's own: the spec names
  no other.
\<close>

definition promiseOrCallback ::
  "platform \<Rightarrow> arg \<Rightarrow> (completion \<Rightarrow> world \<Rightarrow> (js_value + js_ret) \<times> world) \<Rightarrow> world
     \<Rightarrow> (js_value + js_ret) \<times> world" where
  "promiseOrCallback P callback fn w =
     (case callback of
        ArgFunction cb \<Rightarrow> fn cb w
      | ArgObject x \<Rightarrow> without_callback P fn w
      | ArgUndefined \<Rightarrow> without_callback P fn w)"

text \<open>
  A function body that is one call statement and no \<^verbatim>\<open>return\<close>: the value of the call is
  dropped, a failure passes through.
\<close>

definition statement :: "(js_value + js_ret) \<times> world \<Rightarrow> (js_value + js_ret) \<times> world" where
  "statement res =
     (case res of
        (Inl ex, w') \<Rightarrow> (Inl ex, w')
      | (Inr r, w') \<Rightarrow> (Inr RetUndefined, w'))"

text \<open>\<^verbatim>\<open>Bangumi.prototype.get\<close> and \<^verbatim>\<open>Bangumi.prototype.post\<close>.\<close>

definition get :: "platform \<Rightarrow> client \<Rightarrow> string \<Rightarrow> arg \<Rightarrow> arg \<Rightarrow> world \<Rightarrow> (js_value + js_ret) \<times> world" where
  "get P this url params callback w =
     promiseOrCallback P callback
       (\<lambda>cb w'. statement (priv_get P this url params (ArgFunction cb) w')) w"

definition post :: "platform \<Rightarrow> client \<Rightarrow> string \<Rightarrow> arg \<Rightarrow> arg \<Rightarrow> world \<Rightarrow> (js_value + js_ret) \<times> world" where
  "post P this url params callback w =
     promiseOrCallback P callback
       (\<lambda>cb w'. statement (priv_post P this url params (ArgFunction cb) w')) w"

section \<open>The endpoint methods\<close>

text \<open>
  An identifier that the caller may pass as a number is taken as the string it is turned
  into by \<^verbatim>\<open>+\<close>. A method that calls \<^verbatim>\<open>this.get(url, callback)\<close> passes its callback in
  the place of the parameters and nothing in the place of the callback.
\<close>

definition calendar :: "platform \<Rightarrow> client \<Rightarrow> arg \<Rightarrow> world \<Rightarrow> (js_value + js_ret) \<times> world" where
  "calendar P this callback w =
     (case get P this ''/calendar'' callback ArgUndefined w of
        (Inl ex, w') \<Rightarrow> (Inl ex, w')
      | (Inr r, w') \<Rightarrow> (Inr (RetThis this), w'))"

definition user :: "platform \<Rightarrow> client \<Rightarrow> string \<Rightarrow> arg \<Rightarrow> world \<Rightarrow> (js_value + js_ret) \<times> world" where
  "user P this username callback w =
     get P this (''/user/'' @ username) callback ArgUndefined w"

definition subject :: "platform \<Rightarrow> client \<Rightarrow> string \<Rightarrow> arg \<Rightarrow> arg \<Rightarrow> world \<Rightarrow> (js_value + js_ret) \<times> world" where
  "subject P this subject_id params callback w =
     get P this (''/subject/'' @ subject_id) params callback w"

definition ep :: "platform \<Rightarrow> client \<Rightarrow> string \<Rightarrow> arg \<Rightarrow> world \<Rightarrow> (js_value + js_ret) \<times> world" where
  "ep P this subject_id callback w =
     get P this (''/subject/'' @ subject_id @ ''/ep'') callback ArgUndefined w"

definition collectionByUser :: "platform \<Rightarrow> client \<Rightarrow> string \<Rightarrow> arg \<Rightarrow> arg \<Rightarrow> world \<Rightarrow> (js_value + js_ret) \<times> world" where
  "collectionByUser P this username params callback w =
     get P this (''/user/'' @ username @ ''/collection'') params callback w"

definition search :: "platform \<Rightarrow> client \<Rightarrow> string \<Rightarrow> arg \<Rightarrow> arg \<Rightarrow> world \<Rightarrow> (js_value + js_ret) \<times> world" where
  "search P this keywords params callback w =
     get P this (''/search/subject/'' @ keywords) params callback w"

definition collectionBySubject :: "platform \<Rightarrow> client \<Rightarrow> string \<Rightarrow> arg \<Rightarrow> arg \<Rightarrow> world \<Rightarrow> (js_value + js_ret) \<times> world" where
  "collectionBySubject P this subject_id params callback w =
     get P this (''/collection/'' @ subject_id) params callback w"

definition progress :: "platform \<Rightarrow> client \<Rightarrow> string \<Rightarrow> arg \<Rightarrow> arg \<Rightarrow> world \<Rightarrow> (js_value + js_ret) \<times> world" where
  "progress P this username params callback w =
     get P this (''/user/'' @ username @ ''/progress'') params callback w"

definition auth :: "platform \<Rightarrow> client \<Rightarrow> arg \<Rightarrow> arg \<Rightarrow> world \<Rightarrow> (js_value + js_ret) \<times> world" where
  "auth P this params callback w =
     post P this ''/auth'' params callback
       (w\<lparr>console := console w @ [''auth() will be deprecated in the near future'']\<rparr>)"

definition createCollection :: "platform \<Rightarrow> client \<Rightarrow> string \<Rightarrow> arg \<Rightarrow> arg \<Rightarrow> world \<Rightarrow> (js_value + js_ret) \<times> world" where
  "createCollection P this subject_id params callback w =
     post P this (''/collection/'' @ subject_id @ ''/create'') params callback w"

definition updateEp :: "platform \<Rightarrow> client \<Rightarrow> string \<Rightarrow> string \<Rightarrow> arg \<Rightarrow> arg \<Rightarrow> world \<Rightarrow> (js_value + js_ret) \<times> world" where
  "updateEp P this ep_id status params callback w =
     post P this (''/ep/'' @ ep_id @ ''/status/'' @ status) params callback w"

definition updateEps :: "platform \<Rightarrow> client \<Rightarrow> string \<Rightarrow> arg \<Rightarrow> arg \<Rightarrow> world \<Rightarrow> (js_value + js_ret) \<times> world" where
  "updateEps P this subject_id params callback w =
     post P this (''/subject/'' @ subject_id @ ''/update/watched_eps'') params callback w"

section \<open>A request and its response\<close>

text \<open>\<^verbatim>\<open>typeof x === 'function'\<close>.\<close>

fun is_function :: "arg \<Rightarrow> bool" where
  "is_function (ArgFunction f) = True"
| "is_function (ArgObject ps) = False"
| "is_function ArgUndefined = False"

text \<open>
  The transport answers a request: it calls the response callback, which starts with
  \<^verbatim>\<open>data = ''\<close> and registers the listeners, and then emits the events.
\<close>

definition deliver :: "platform \<Rightarrow> request \<Rightarrow> event list \<Rightarrow> world \<Rightarrow> js_value option \<times> world" where
  "deliver P r es w = respond P (req_handler r) es [] w"

text \<open>
  A call followed by the response to the request it sent: the world after both. A call
  that failed, or sent nothing, gets no response.
\<close>

definition roundtrip :: "platform \<Rightarrow> (js_value + js_ret) \<times> world \<Rightarrow> event list \<Rightarrow> world" where
  "roundtrip P res es =
     (case res of
        (Inl ex, w1) \<Rightarrow> w1
      | (Inr r, w1) \<Rightarrow>
          (case rev (sent w1) of
             [] \<Rightarrow> w1
           | q # qs \<Rightarrow> snd (deliver P q es w1)))"

section \<open>Example data\<close>

text \<open>
  The runtime functions at the inputs of the examples below: the query strings of objects
  whose keys and values need no escaping, paths without a character that \<^verbatim>\<open>encodeURI\<close>
  escapes, and the parse results of a few response bodies.
\<close>

definition example_stringify :: "obj \<Rightarrow> string" where
  "example_stringify ps =
     (if ps = [(''source'', Str ''bgm1'')] then ''source=bgm1''
      else if ps = [(''status'', Str ''wish'')] then ''status=wish''
      else if ps = [(''source'', Str ''bgm1''), (''cat'', Str ''watching'')]
        then ''source=bgm1&cat=watching''
      else if ps = [(''1'', Str ''x''), (''source'', Str ''bgm1'')] then ''1=x&source=bgm1''
      else if ps = [(''source'', Str ''other'')] then ''source=other''
      else [])"

definition example_parse :: "string \<Rightarrow> json option" where
  "example_parse body =
     (if body = ''null'' then Some JNull
      else if body = ''{}'' then Some (JObj [])
      else if body = ''{\"shows\":[]}'' then Some (JObj [(''shows'', JArr [])])
      else if body = ''{\"error\":\"need login\"}''
        then Some (JObj [(''error'', JStr ''need login'')])
      else if body = ''{\"hasOwnProperty\":1}'' then Some (JObj [(''hasOwnProperty'', JNum 1)])
      else None)"

definition example_platform :: platform where
  "example_platform =
     \<lparr>querystring_stringify = example_stringify,
      encodeURI = (\<lambda>s. s),
      JSON_parse = example_parse,
      executor_traps = True\<rparr>"

text \<open>
  A client made with an application identifier and an access token, the default headers
  at address 0, and a world in which nothing has happened yet.
\<close>

definition example_client :: client where
  "example_client =
     \<lparr>options =
        \<lparr>headers = 0, callback_url = None, rest_base = ''api.bgm.tv'', cookie_options = [],
         cookie_secret = None, protocol = None, app_id = Some ''bgm1'',
         access_token = Some ''tok''\<rparr>\<rparr>"

definition example_world :: world where
  "example_world =
     \<lparr>heap = (\<lambda>r. default_headers), promises = (\<lambda>r. Pending), next_ref = 1,
      sent = [], calls = [], console = []\<rparr>"

text \<open>The same client made without application identifier and access token.\<close>

definition anonymous_client :: client where
  "anonymous_client =
     \<lparr>options =
        \<lparr>headers = 0, callback_url = None, rest_base = ''api.bgm.tv'', cookie_options = [],
         cookie_secret = None, protocol = None, app_id = None, access_token = None\<rparr>\<rparr>"

text \<open>A world in which the client's header object sets \<^verbatim>\<open>Content-Length\<close> itself.\<close>

definition fixed_length_world :: world where
  "fixed_length_world =
     \<lparr>heap = (\<lambda>r. [(''Content-Length'', Str ''999'')]), promises = (\<lambda>r. Pending),
      next_ref = 1, sent = [], calls = [], console = []\<rparr>"

text \<open>A callback that returns normally, and one that throws when it is first called.\<close>

definition quiet_callback :: callback where
  "quiet_callback cs e v = None"

definition throwing_callback :: callback where
  "throwing_callback cs e v = (if cs = [] then Some (Val (JStr ''boom'')) else None)"

section \<open>Basic facts\<close>

lemma calls_invoke: "calls (snd (invoke c e v w)) = calls w @ [(e, v)]"
  by (cases c) (simp_all add: invoke_def)

lemma respond_data:
  "respond P c (map Data chunks @ es) data w = respond P c es (data @ concat chunks) w"
  by (induction chunks arbitrary: data) simp_all

lemma respond_End_last: "snd (respond P c [End] data w) = snd (on_end P c data w)"
  by (simp split: prod.splits option.splits)

lemma respond_Error_last: "snd (respond P c [Error err] data w) = snd (on_error c err w)"
  by (simp split: prod.splits option.splits)

lemma calls_on_error: "calls (snd (on_error c err w)) = calls w @ [(err, Val (JObj []))]"
  by (simp add: on_error_def calls_invoke)

lemma calls_on_end_parse_failure:
  "JSON_parse P data = None \<Longrightarrow>
   calls (snd (on_end P c data w)) = calls w @ [(Exn SyntaxError, Val (JObj []))]"
  by (simp add: on_end_def try_end_def calls_invoke)

lemma calls_set_authorization: "calls (set_authorization this h w) = calls w"
  by (simp add: set_authorization_def split: option.splits)

lemma calls_priv_get: "calls (snd (priv_get P this url params callback w)) = calls w"
  by (simp add: priv_get_def Let_def transport_request_def calls_set_authorization
      split: prod.splits arg.splits option.splits)

lemma calls_priv_post: "calls (snd (priv_post P this url params callback w)) = calls w"
  by (simp add: priv_post_def Let_def transport_request_def set_authorization_def
      split: prod.splits arg.splits option.splits)

lemma priv_get_no_callback:
  "\<not> is_function params \<Longrightarrow> \<not> is_function callback \<Longrightarrow>
   priv_get P this url params callback w = (Inl (Val (JStr ''FAIL: INVALID CALLBACK.'')), w)"
  by (cases params; cases callback) (simp_all add: priv_get_def shift_args_def)

lemma priv_post_no_callback:
  "\<not> is_function params \<Longrightarrow> \<not> is_function callback \<Longrightarrow>
   priv_post P this url params callback w = (Inl (Val (JStr ''FAIL: INVALID CALLBACK.'')), w)"
  by (cases params; cases callback) (simp_all add: priv_post_def shift_args_def)

lemma priv_get_bad_url:
  "take 1 url \<noteq> ''/'' \<Longrightarrow> is_function params \<or> is_function callback \<Longrightarrow>
   priv_get P this url params callback w = (Inl (Val (JStr ''FAIL: INVALID URL.'')), w)"
  by (cases params; cases callback) (simp_all add: priv_get_def shift_args_def)

lemma priv_post_bad_url:
  "take 1 url \<noteq> ''/'' \<Longrightarrow> is_function params \<or> is_function callback \<Longrightarrow>
   priv_post P this url params callback w = (Inl (Val (JStr ''FAIL: INVALID URL.'')), w)"
  by (cases params; cases callback) (simp_all add: priv_post_def shift_args_def)

lemmas example_defs = example_platform_def example_parse_def example_stringify_def
  example_client_def anonymous_client_def example_world_def fixed_length_world_def quiet_callback_def throwing_callback_def default_headers_def

lemma map_of_insert_index:
  "array_index k = Some n \<Longrightarrow> map_of (insert_index k n v al) = (map_of al)(k \<mapsto> v)"
proof (induction al)
  case Nil
  then show ?case by simp
next
  case (Cons kv al)
  obtain k' v' where kv: "kv = (k', v')" by (cases kv)
  show ?case
  proof (cases "array_index k'")
    case None
    then show ?thesis by (auto simp: kv fun_eq_iff)
  next
    case (Some m)
    show ?thesis
    proof (cases "m < n")
      case True
      with Some Cons.prems have "k' \<noteq> k" by auto
      with True Some Cons show ?thesis
        by (auto simp: kv fun_eq_iff)
    next
      case False
      with Some show ?thesis by (auto simp: kv fun_eq_iff)
    qed
  qed
qed

lemma map_of_assign: "map_of (assign k v al) = (map_of al)(k \<mapsto> v)"
proof (cases "k \<in> set (map fst al)")
  case True
  then show ?thesis by (simp add: assign_def update_conv')
next
  case False
  then have absent: "map_of al k = None"
    by (simp add: map_of_eq_None_iff)
  show ?thesis
  proof (cases "array_index k")
    case None
    with False absent show ?thesis
      by (auto simp: assign_def map_add_def fun_eq_iff split: option.splits)
  next
    case (Some n)
    with False show ?thesis
      by (simp add: assign_def map_of_insert_index)
  qed
qed

lemma map_of_fold_assign:
  "map_of (fold (\<lambda>(k, v). assign k v) ps d) = map_of d ++ map_of (rev ps)"
proof (induction ps arbitrary: d)
  case Nil
  then show ?case by simp
next
  case (Cons kv ps)
  obtain k v where kv: "kv = (k, v)" by (cases kv)
  have "map_of (fold (\<lambda>(k, v). assign k v) (kv # ps) d) =
        map_of (assign k v d) ++ map_of (rev ps)"
    using Cons.IH [of "assign k v d"] kv by simp
  also have "\<dots> = map_of d ++ map_of (rev (kv # ps))"
    by (simp add: kv map_of_assign fun_eq_iff map_add_def split: option.splits)
  finally show ?case .
qed

lemma map_of_utils_merge: "map_of (utils_merge d ps) = map_of d ++ map_of (rev ps)"
  by (simp add: utils_merge_def map_of_fold_assign)

lemma utils_merge_empty [simp]: "utils_merge d [] = d"
  by (simp add: utils_merge_def)

lemma utils_merge_keeps:
  "k \<notin> set (map fst ps) \<Longrightarrow> map_of (utils_merge d ps) k = map_of d k"
proof -
  assume "k \<notin> set (map fst ps)"
  then have "map_of (rev ps) k = None"
    by (simp add: map_of_eq_None_iff)
  then show ?thesis
    by (simp add: map_of_utils_merge map_add_def)
qed

lemma priv_get_ok:
  assumes "shift_args params callback = (p, ArgFunction cb)"
    and "take 1 url = ''/''"
    and "protocolName this = ''http'' \<or> protocolName this = ''https''"
  shows "priv_get P this url params callback w =
    (Inr (RetThis this),
     (set_authorization this (headers (options this)) w)
       \<lparr>sent := sent w @
          [\<lparr>req_protocol = protocolName this,
            req_host = rest_base (options this),
            req_path =
              (let qs = querystring_stringify P
                     (case app_id (options this) of
                        Some a \<Rightarrow> utils_merge [(''source'', Str a)] (own_props p)
                      | None \<Rightarrow> own_props p)
               in encodeURI P (url @ (if qs = [] then [] else ''?'') @ qs)),
            req_method = ''GET'',
            req_headers = heap (set_authorization this (headers (options this)) w)
                            (headers (options this)),
            req_body = [],
            req_handler = cb\<rparr>]\<rparr>)"
  using assms
  by (auto simp: priv_get_def Let_def transport_request_def set_authorization_def
      split: option.splits)

lemma heap_set_authorization:
  "heap (set_authorization this h w) h =
     (case access_token (options this) of
        Some t \<Rightarrow> assign ''Authorization'' (Str (''Bearer '' @ t)) (heap w h)
      | None \<Rightarrow> heap w h)"
  by (simp add: set_authorization_def split: option.splits)

lemma priv_post_ok:
  assumes "shift_args params callback = (p, ArgFunction cb)"
    and "take 1 url = ''/''"
    and "protocolName this = ''http'' \<or> protocolName this = ''https''"
  shows "priv_post P this url params callback w =
    (Inr (RetThis this),
     (set_authorization this (next_ref w)
        (w\<lparr>next_ref := Suc (next_ref w),
           heap := (heap w)(next_ref w :=
             utils_merge [(''Content-Length'', Num (length (querystring_stringify P (own_props p))))]
               (heap w (headers (options this))))\<rparr>))
       \<lparr>sent := sent w @
          [\<lparr>req_protocol = protocolName this,
            req_host = rest_base (options this),
            req_path = encodeURI P url @
              (case app_id (options this) of
                 Some a \<Rightarrow> ''?'' @ querystring_stringify P [(''source'', Str a)]
               | None \<Rightarrow> []),
            req_method = ''POST'',
            req_headers =
              (case access_token (options this) of
                 Some t \<Rightarrow> assign ''Authorization'' (Str (''Bearer '' @ t))
                   (utils_merge [(''Content-Length'', Num (length (querystring_stringify P (own_props p))))]
                      (heap w (headers (options this))))
               | None \<Rightarrow>
                   utils_merge [(''Content-Length'', Num (length (querystring_stringify P (own_props p))))]
                     (heap w (headers (options this)))),
            req_body = querystring_stringify P (own_props p),
            req_handler = cb\<rparr>]\<rparr>)"
  using assms
  by (auto simp: priv_post_def Let_def transport_request_def set_authorization_def
      split: option.splits)

lemma content_length_sent:
  assumes "''Content-Length'' \<notin> set (map fst hs)"
  shows "map_of (case tok of
            Some t \<Rightarrow> assign ''Authorization'' (Str (''Bearer '' @ t))
                        (utils_merge [(''Content-Length'', Num n)] hs)
          | None \<Rightarrow> utils_merge [(''Content-Length'', Num n)] hs) ''Content-Length'' =
         Some (Num n)"
  using utils_merge_keeps [OF assms, of "[(''Content-Length'', Num n)]"]
  by (simp add: map_of_assign split: option.splits)

lemma priv_post_keeps_heap:
  "r \<noteq> next_ref w \<Longrightarrow> heap (snd (priv_post P this url params callback w)) r = heap w r"
  by (simp add: priv_post_def Let_def transport_request_def set_authorization_def
      split: prod.splits arg.splits option.splits)

lemma priv_get_keeps_heap:
  "access_token (options this) = None \<or> r \<noteq> headers (options this) \<Longrightarrow>
   heap (snd (priv_get P this url params callback w)) r = heap w r"
  by (auto simp add: priv_get_def Let_def transport_request_def set_authorization_def
      split: prod.splits arg.splits option.splits)

lemma on_end_classifies:
  assumes "JSON_parse P data = Some json" and "hasOwnProperty_error json = Inr has"
  shows "\<exists>rest. calls (snd (on_end P c data w)) =
           calls w @ (if has then (Val json, Val (JObj [])) else (Val JNull, Val json)) # rest"
  using assms
  by (cases c) (auto simp: on_end_def try_end_def invoke_def split: option.splits)

lemma on_end_classifies_quiet:
  assumes "JSON_parse P data = Some json" and "hasOwnProperty_error json = Inr has"
    and "\<And>e v. cb (calls w) e v = None"
  shows "calls (snd (on_end P (User cb) data w)) =
           calls w @ [if has then (Val json, Val (JObj [])) else (Val JNull, Val json)]"
  using assms
  by (auto simp: on_end_def try_end_def invoke_def split: option.splits)

lemma on_end_once:
  assumes "\<And>cs e v. cb cs e v = None"
  shows "\<exists>c. on_end P (User cb) data w = (None, w\<lparr>calls := calls w @ [c]\<rparr>)"
  using assms
  by (auto simp: on_end_def try_end_def invoke_def split: option.splits sum.splits)

lemma quiet_callback_called_once:
  assumes "\<And>cs e v. cb cs e v = None"
  shows "\<exists>c. calls (snd (respond P (User cb) (map Data chunks @ [End]) [] w)) = calls w @ [c]"
    and "calls (snd (respond P (User cb) (map Data chunks @ [Error err]) [] w)) =
           calls w @ [(err, Val (JObj []))]"
proof -
  obtain c where "on_end P (User cb) (concat chunks) w = (None, w\<lparr>calls := calls w @ [c]\<rparr>)"
    using on_end_once [of cb P "concat chunks" w] assms by blast
  then show "\<exists>c. calls (snd (respond P (User cb) (map Data chunks @ [End]) [] w)) = calls w @ [c]"
    by (simp add: respond_data)
  show "calls (snd (respond P (User cb) (map Data chunks @ [Error err]) [] w)) =
           calls w @ [(err, Val (JObj []))]"
    by (simp add: respond_data respond_Error_last calls_on_error del: respond.simps)
qed

lemma shift_args_shape:
  assumes "(params = ArgObject ps \<and> callback = ArgFunction cb) \<or>
      (params = ArgUndefined \<and> callback = ArgFunction cb \<and> ps = []) \<or>
      (params = ArgFunction cb \<and> ps = [])"
  shows "\<exists>p. shift_args params callback = (p, ArgFunction cb) \<and> own_props p = ps"
  using assms by (auto simp: shift_args_def)

lemmas model_defs = priv_get_def priv_post_def shift_args_def utils_merge_def assign_def
  protocolName_def
  set_authorization_def transport_request_def roundtrip_def deliver_def on_end_def try_end_def
  on_error_def invoke_def

subsection \<open>The deferred value follows the first completion\<close>

lemma settle_settled: "s \<noteq> Pending \<Longrightarrow> settle s e v = s"
  by (cases s) (simp_all add: settle_def)

lemma settle_not_Pending: "settle s e v \<noteq> Pending"
  by (cases s) (simp_all add: settle_def)

lemma on_end_Settle:
  "\<exists>e v. on_end P (Settle d) data w =
     (None, w\<lparr>calls := calls w @ [(e, v)],
              promises := (promises w)(d := settle (promises w d) e v)\<rparr>) \<and>
     (\<exists>r extra. on_end P (User cb) data w2 = (r, w2\<lparr>calls := calls w2 @ (e, v) # extra\<rparr>))"
  by (auto simp: on_end_def try_end_def invoke_def split: option.splits sum.splits)

lemma on_error_Settle:
  "on_error (Settle d) err w =
     (None, w\<lparr>calls := calls w @ [(err, Val (JObj []))],
              promises := (promises w)(d := settle (promises w d) err (Val (JObj [])))\<rparr>)"
  by (simp add: on_error_def invoke_def)

lemma on_error_User:
  "on_error (User cb) err w =
     (cb (calls w) err (Val (JObj [])), w\<lparr>calls := calls w @ [(err, Val (JObj []))]\<rparr>)"
  by (simp add: on_error_def invoke_def)

lemma settled_stays:
  "promises w d \<noteq> Pending \<Longrightarrow> promises (snd (respond P (Settle d) es data w)) d = promises w d"
proof (induction es arbitrary: data w)
  case Nil
  then show ?case by simp
next
  case (Cons ev es)
  show ?case
  proof (cases ev)
    case (Data chunk)
    with Cons show ?thesis by simp
  next
    case End
    obtain e v where step: "on_end P (Settle d) data w =
       (None, w\<lparr>calls := calls w @ [(e, v)],
                promises := (promises w)(d := settle (promises w d) e v)\<rparr>)"
      using on_end_Settle [of P d data w] by blast
    with Cons End show ?thesis
      by (simp add: settle_settled)
  next
    case (Error err)
    with Cons show ?thesis
      by (simp add: on_error_Settle settle_settled)
  qed
qed

lemma calls_grow: "\<exists>rest. calls (snd (respond P c es data w)) = calls w @ rest"
proof (induction es arbitrary: data w)
  case Nil
  then show ?case by simp
next
  case (Cons ev es)
  show ?case
  proof (cases ev)
    case (Data chunk)
    with Cons show ?thesis by simp
  next
    case End
    obtain r w' where step: "on_end P c data w = (r, w')"
      by (cases "on_end P c data w")
    have "\<exists>rest. calls w' = calls w @ rest"
      using step by (cases c) (auto simp: on_end_def try_end_def invoke_def
          split: option.splits sum.splits if_splits)
    then obtain m1 where m1: "calls w' = calls w @ m1" ..
    show ?thesis
    proof (cases r)
      case None
      obtain m2 where "calls (snd (respond P c es data w')) = calls w' @ m2"
        using Cons.IH [of data w'] ..
      with None End step m1 show ?thesis by simp
    next
      case (Some ex)
      with End step m1 show ?thesis by simp
    qed
  next
    case (Error err)
    obtain r w' where step: "on_error c err w = (r, w')"
      by (cases "on_error c err w")
    have m1: "calls w' = calls w @ [(err, Val (JObj []))]"
      using step calls_on_error [of c err w] by simp
    show ?thesis
    proof (cases r)
      case None
      obtain m2 where "calls (snd (respond P c es data w')) = calls w' @ m2"
        using Cons.IH [of data w'] ..
      with None Error step m1 show ?thesis by simp
    next
      case (Some ex)
      with Error step m1 show ?thesis by simp
    qed
  qed
qed

lemma Settle_tracks_first_call:
  "promises (snd (respond P (Settle d) es data w1)) d =
     (case drop (length (calls w2)) (calls (snd (respond P (User cb) es data w2))) of
        [] \<Rightarrow> promises w1 d
      | (e, v) # rest \<Rightarrow> settle (promises w1 d) e v)"
proof (induction es arbitrary: data)
  case Nil
  then show ?case by simp
next
  case (Cons ev es)
  show ?case
  proof (cases ev)
    case (Data chunk)
    with Cons show ?thesis by simp
  next
    case End
    obtain e v r extra where s1: "on_end P (Settle d) data w1 =
       (None, w1\<lparr>calls := calls w1 @ [(e, v)],
                 promises := (promises w1)(d := settle (promises w1 d) e v)\<rparr>)"
      and s2: "on_end P (User cb) data w2 = (r, w2\<lparr>calls := calls w2 @ (e, v) # extra\<rparr>)"
      using on_end_Settle [of P d data w1 cb w2] by blast
    have left: "promises (snd (respond P (Settle d) (ev # es) data w1)) d =
        settle (promises w1 d) e v"
      using End s1 by (simp add: settled_stays settle_not_Pending)
    obtain rest where "calls (snd (respond P (User cb) es data
          (w2\<lparr>calls := calls w2 @ (e, v) # extra\<rparr>))) = (calls w2 @ (e, v) # extra) @ rest"
      using calls_grow [of P "User cb" es data "w2\<lparr>calls := calls w2 @ (e, v) # extra\<rparr>"]
      by auto
    then have right: "drop (length (calls w2)) (calls (snd (respond P (User cb) (ev # es) data w2))) =
        (e, v) # (if r = None then extra @ rest else extra)"
      using End s2 by (cases r) simp_all
    show ?thesis
      by (simp only: left right list.case prod.case)
  next
    case (Error err)
    have left: "promises (snd (respond P (Settle d) (ev # es) data w1)) d =
        settle (promises w1 d) err (Val (JObj []))"
      using Error by (simp add: on_error_Settle settled_stays settle_not_Pending)
    obtain rest where "calls (snd (respond P (User cb) es data
          (w2\<lparr>calls := calls w2 @ [(err, Val (JObj []))]\<rparr>))) =
        (calls w2 @ [(err, Val (JObj []))]) @ rest"
      using calls_grow [of P "User cb" es data "w2\<lparr>calls := calls w2 @ [(err, Val (JObj []))]\<rparr>"]
      by auto
    then have right: "drop (length (calls w2)) (calls (snd (respond P (User cb) (ev # es) data w2))) =
        (err, Val (JObj [])) # (if cb (calls w2) err (Val (JObj [])) = None then rest else [])"
      using Error by (cases "cb (calls w2) err (Val (JObj []))") (simp_all add: on_error_User)
    show ?thesis
      by (simp only: left right list.case prod.case)
  qed
qed


lemma shift_args_callback:
  "\<not> is_function params \<Longrightarrow> shift_args params (ArgFunction c) = (params, ArgFunction c)"
  by (cases params) (simp_all add: shift_args_def)

lemma shift_args_total:
  "\<exists>p c'. shift_args params (ArgFunction c) = (p, ArgFunction c')"
  by (cases params) (simp_all add: shift_args_def)

lemma promises_set_authorization: "promises (set_authorization this h w) = promises w"
  by (simp add: set_authorization_def split: option.splits)

lemma get_with_callback:
  "get P this url params (ArgFunction cb) w =
     statement (priv_get P this url params (ArgFunction cb) w)"
  by (simp add: get_def promiseOrCallback_def)

lemma post_with_callback:
  "post P this url params (ArgFunction cb) w =
     statement (priv_post P this url params (ArgFunction cb) w)"
  by (simp add: post_def promiseOrCallback_def)

lemma get_without_callback:
  "\<not> is_function callback \<Longrightarrow>
   get P this url params callback w =
     without_callback P (\<lambda>cb w'. statement (priv_get P this url params (ArgFunction cb) w')) w"
  by (cases callback) (simp_all add: get_def promiseOrCallback_def)

lemma post_without_callback:
  "\<not> is_function callback \<Longrightarrow>
   post P this url params callback w =
     without_callback P (\<lambda>cb w'. statement (priv_post P this url params (ArgFunction cb) w')) w"
  by (cases callback) (simp_all add: post_def promiseOrCallback_def)

lemma get_deferred:
  assumes "\<not> is_function callback" and "take 1 url = ''/''"
    and "protocolName this = ''http'' \<or> protocolName this = ''https''"
  shows "get P this url params callback w =
    (Inr (RetDeferred (next_ref w)),
     snd (priv_get P this url params (ArgFunction (Settle (next_ref w)))
       (w\<lparr>next_ref := Suc (next_ref w), promises := (promises w)(next_ref w := Pending)\<rparr>)))"
proof -
  obtain p c' where args: "shift_args params (ArgFunction (Settle (next_ref w))) = (p, ArgFunction c')"
    using shift_args_total by blast
  show ?thesis
    unfolding get_without_callback [OF assms(1)] without_callback_def Let_def
    by (simp add: priv_get_ok [OF args assms(2,3)] statement_def)
qed

lemma post_deferred:
  assumes "\<not> is_function callback" and "take 1 url = ''/''"
    and "protocolName this = ''http'' \<or> protocolName this = ''https''"
  shows "post P this url params callback w =
    (Inr (RetDeferred (next_ref w)),
     snd (priv_post P this url params (ArgFunction (Settle (next_ref w)))
       (w\<lparr>next_ref := Suc (next_ref w), promises := (promises w)(next_ref w := Pending)\<rparr>)))"
proof -
  obtain p c' where args: "shift_args params (ArgFunction (Settle (next_ref w))) = (p, ArgFunction c')"
    using shift_args_total by blast
  show ?thesis
    unfolding post_without_callback [OF assms(1)] without_callback_def Let_def
    by (simp add: priv_post_ok [OF args assms(2,3)] statement_def)
qed

lemma promises_priv_get: "promises (snd (priv_get P this url params callback w)) = promises w"
  by (simp add: priv_get_def Let_def transport_request_def promises_set_authorization
      split: prod.splits arg.splits option.splits)

lemma promises_priv_post: "promises (snd (priv_post P this url params callback w)) = promises w"
  by (simp add: priv_post_def Let_def transport_request_def set_authorization_def
      split: prod.splits arg.splits option.splits)

lemma roundtrip_priv_get:
  assumes "shift_args params callback = (p, ArgFunction c)" and "take 1 url = ''/''"
    and "protocolName this = ''http'' \<or> protocolName this = ''https''"
  shows "roundtrip P (res, snd (priv_get P this url params callback w)) es =
    (case res of
       Inl ex \<Rightarrow> snd (priv_get P this url params callback w)
     | Inr r \<Rightarrow> snd (respond P c es [] (snd (priv_get P this url params callback w))))"
  by (simp add: priv_get_ok [OF assms] roundtrip_def deliver_def split: sum.splits)

lemma roundtrip_priv_post:
  assumes "shift_args params callback = (p, ArgFunction c)" and "take 1 url = ''/''"
    and "protocolName this = ''http'' \<or> protocolName this = ''https''"
  shows "roundtrip P (res, snd (priv_post P this url params callback w)) es =
    (case res of
       Inl ex \<Rightarrow> snd (priv_post P this url params callback w)
     | Inr r \<Rightarrow> snd (respond P c es [] (snd (priv_post P this url params callback w))))"
  by (simp add: priv_post_ok [OF assms] roundtrip_def deliver_def split: sum.splits)

lemma get_callback_mode:
  assumes "take 1 url = ''/''"
    and "protocolName this = ''http'' \<or> protocolName this = ''https''"
  shows "get P this url params (ArgFunction cb) w =
    (Inr RetUndefined, snd (priv_get P this url params (ArgFunction cb) w))"
proof -
  obtain p c' where args: "shift_args params (ArgFunction cb) = (p, ArgFunction c')"
    using shift_args_total by blast
  show ?thesis
    by (simp add: get_with_callback priv_get_ok [OF args assms] statement_def)
qed

lemma post_callback_mode:
  assumes "take 1 url = ''/''"
    and "protocolName this = ''http'' \<or> protocolName this = ''https''"
  shows "post P this url params (ArgFunction cb) w =
    (Inr RetUndefined, snd (priv_post P this url params (ArgFunction cb) w))"
proof -
  obtain p c' where args: "shift_args params (ArgFunction cb) = (p, ArgFunction c')"
    using shift_args_total by blast
  show ?thesis
    by (simp add: post_with_callback priv_post_ok [OF args assms] statement_def)
qed

lemma settle_Pending: "settle Pending e v = (if e = Val JNull then Resolved v else Rejected e)"
  by (simp add: settle_def)

lemma calls_statement: "calls (snd (statement res)) = calls (snd res)"
  by (simp add: statement_def split: prod.splits sum.splits)

lemma calls_without_callback:
  assumes "\<And>c w'. calls (snd (fn c w')) = calls w'"
  shows "calls (snd (without_callback P fn w)) = calls w"
proof -
  let ?w0 = "w\<lparr>next_ref := Suc (next_ref w), promises := (promises w)(next_ref w := Pending)\<rparr>"
  obtain res w' where run: "fn (Settle (next_ref w)) ?w0 = (res, w')"
    by (cases "fn (Settle (next_ref w)) ?w0")
  have "calls w' = calls w"
    using assms [of "Settle (next_ref w)" ?w0] run by simp
  then show ?thesis
    by (cases res) (simp_all add: without_callback_def Let_def run)
qed

lemma calls_get: "calls (snd (get P this url params callback w)) = calls w"
  by (cases callback)
    (simp_all add: get_def promiseOrCallback_def calls_without_callback calls_statement
      calls_priv_get)

lemma calls_post: "calls (snd (post P this url params callback w)) = calls w"
  by (cases callback)
    (simp_all add: post_def promiseOrCallback_def calls_without_callback calls_statement
      calls_priv_post)

lemma shift_args_supplied:
  "is_function params \<or> is_function callback \<Longrightarrow>
   \<exists>p c. shift_args params callback = (p, ArgFunction c)"
  by (cases params; cases callback) (simp_all add: shift_args_def)

section \<open>Invalid arguments\<close>

text \<open>
  C5. A path whose first character is not \<^verbatim>\<open>/\<close> (the empty path included) makes \<^verbatim>\<open>_get\<close>
  and \<^verbatim>\<open>_post\<close> throw before anything else happens: the world is returned as it was, so
  no request has been handed to the transport, no header object written and no callback
  called. The value thrown is the invalid-path failure when a callback was passed, in
  either place, and the invalid-callback failure otherwise, since the callback is checked
  first. Without a function in either place both executors throw the invalid-callback
  failure, whatever the path.
\<close>

theorem invalid_arguments_raise:
  "(take 1 url \<noteq> ''/'' \<longrightarrow>
      priv_get P this url params callback w =
        (Inl (Val (JStr (if is_function params \<or> is_function callback
                         then ''FAIL: INVALID URL.'' else ''FAIL: INVALID CALLBACK.''))), w) \<and>
      priv_post P this url params callback w =
        (Inl (Val (JStr (if is_function params \<or> is_function callback
                         then ''FAIL: INVALID URL.'' else ''FAIL: INVALID CALLBACK.''))), w)) \<and>
   (\<not> is_function params \<and> \<not> is_function callback \<longrightarrow>
      priv_get P this url params callback w = (Inl (Val (JStr ''FAIL: INVALID CALLBACK.'')), w) \<and>
      priv_post P this url params callback w = (Inl (Val (JStr ''FAIL: INVALID CALLBACK.'')), w))"
  using priv_get_no_callback [of params callback P this url w]
    priv_post_no_callback [of params callback P this url w]
    priv_get_bad_url [of url params callback P this w]
    priv_post_bad_url [of url params callback P this w]
  by auto

theorem invalid_arguments_raise_witness:
  "priv_get example_platform example_client ''calendar'' (ArgFunction (User quiet_callback))
       ArgUndefined example_world =
     (Inl (Val (JStr ''FAIL: INVALID URL.'')), example_world) \<and>
   priv_post example_platform example_client ''calendar'' (ArgObject [(''status'', Str ''wish'')])
       (ArgFunction (User quiet_callback)) example_world =
     (Inl (Val (JStr ''FAIL: INVALID URL.'')), example_world) \<and>
   priv_get example_platform example_client ''/calendar'' ArgUndefined ArgUndefined example_world =
     (Inl (Val (JStr ''FAIL: INVALID CALLBACK.'')), example_world) \<and>
   priv_post example_platform example_client ''/auth'' (ArgObject []) ArgUndefined example_world =
     (Inl (Val (JStr ''FAIL: INVALID CALLBACK.'')), example_world)"
  using invalid_arguments_raise [of "''calendar''" example_platform example_client
      "ArgFunction (User quiet_callback)" ArgUndefined example_world]
    invalid_arguments_raise [of "''calendar''" example_platform example_client
      "ArgObject [(''status'', Str ''wish'')]" "ArgFunction (User quiet_callback)" example_world]
    invalid_arguments_raise [of "''/calendar''" example_platform example_client
      ArgUndefined ArgUndefined example_world]
    invalid_arguments_raise [of "''/auth''" example_platform example_client
      "ArgObject []" ArgUndefined example_world]
  by simp

section \<open>Parse failures and stream errors\<close>

text \<open>
  C6. When the chunks of a response, put together, do not parse, the \<^verbatim>\<open>'end'\<close> listener
  calls the callback once with the parser's error and \<^verbatim>\<open>{}\<close>; an \<^verbatim>\<open>'error'\<close> event of the
  response stream calls it with that error and \<^verbatim>\<open>{}\<close>. Both calls are made by the
  listeners: when \<^verbatim>\<open>_get\<close> or \<^verbatim>\<open>_post\<close> returns, no call has been made.
\<close>

theorem failures_reach_callback:
  "(JSON_parse P (concat chunks) = None \<longrightarrow>
      calls (snd (respond P c (map Data chunks @ [End]) [] w)) =
        calls w @ [(Exn SyntaxError, Val (JObj []))]) \<and>
   calls (snd (respond P c (map Data chunks @ [Error err]) [] w)) =
     calls w @ [(err, Val (JObj []))] \<and>
   calls (snd (priv_get P this url params callback w)) = calls w \<and>
   calls (snd (priv_post P this url params callback w)) = calls w"
  by (simp add: respond_data respond_End_last respond_Error_last calls_on_end_parse_failure
      calls_on_error calls_priv_get calls_priv_post del: respond.simps)

theorem failures_reach_callback_witness:
  "JSON_parse example_platform (concat [''<html>'', ''</html>'']) = None \<and>
   calls (snd (respond example_platform (User quiet_callback)
       (map Data [''<html>'', ''</html>''] @ [End]) [] example_world)) =
     calls example_world @ [(Exn SyntaxError, Val (JObj []))] \<and>
   calls (snd (respond example_platform (User quiet_callback)
       (map Data [''<html>'', ''</html>''] @ [Error (Exn (StreamError ''aborted''))]) []
       example_world)) =
     calls example_world @ [(Exn (StreamError ''aborted''), Val (JObj []))]"
proof -
  have unparsed: "JSON_parse example_platform (concat [''<html>'', ''</html>'']) = None"
    by (simp add: example_platform_def example_parse_def)
  show ?thesis
    using unparsed
      failures_reach_callback [where P = example_platform and chunks = "[''<html>'', ''</html>'']"
        and c = "User quiet_callback" and w = example_world
        and err = "Exn (StreamError ''aborted'')"]
    by blast
qed

section \<open>The shape of the requests\<close>

text \<open>
  C8, as amended. A call of \<^verbatim>\<open>_get\<close> with a path starting with \<^verbatim>\<open>/\<close>, a protocol of the
  table and a callback, in one of the three shapes \<^verbatim>\<open>(url, params, cb)\<close>,
  \<^verbatim>\<open>(url, undefined, cb)\<close> and \<^verbatim>\<open>(url, cb)\<close>, hands exactly one request to the transport and
  returns the client. The request is a GET to the configured host. With an application
  identifier configured, its parameters are those of the call merged over
  \<^verbatim>\<open>{source: app_id}\<close>: every parameter of the call is among them, and \<^verbatim>\<open>source\<close> is the
  application identifier unless the call has a parameter \<^verbatim>\<open>source\<close> of its own, which
  then stays. Without one they are the parameters of the call. The path is \<^verbatim>\<open>encodeURI\<close> of
  the path of the call followed by the query string of these parameters, after a \<^verbatim>\<open>?\<close>
  exactly when the query string is not empty. The headers are the client's, with
  \<^verbatim>\<open>Authorization\<close> set to the bearer token when an access token is configured and as they
  are when none is.
\<close>

theorem get_request_shape:
  assumes "take 1 url = ''/''"
    and "protocolName this = ''http'' \<or> protocolName this = ''https''"
    and "(params = ArgObject ps \<and> callback = ArgFunction cb) \<or>
      (params = ArgUndefined \<and> callback = ArgFunction cb \<and> ps = []) \<or>
      (params = ArgFunction cb \<and> ps = [])"
  shows "\<exists>r w' q. priv_get P this url params callback w = (Inr (RetThis this), w') \<and>
    sent w' = sent w @ [r] \<and>
    req_method r = ''GET'' \<and>
    req_host r = rest_base (options this) \<and>
    req_body r = [] \<and>
    req_handler r = cb \<and>
    q = (case app_id (options this) of
           Some a \<Rightarrow> utils_merge [(''source'', Str a)] ps
         | None \<Rightarrow> ps) \<and>
    map_of q = (case app_id (options this) of
           Some a \<Rightarrow> [''source'' \<mapsto> Str a] ++ map_of (rev ps)
         | None \<Rightarrow> map_of ps) \<and>
    req_path r = encodeURI P (url @ (if querystring_stringify P q = [] then [] else ''?'') @
                   querystring_stringify P q) \<and>
    req_headers r =
      (case access_token (options this) of
         Some t \<Rightarrow> assign ''Authorization'' (Str (''Bearer '' @ t))
                     (heap w (headers (options this)))
       | None \<Rightarrow> heap w (headers (options this)))"
proof -
  obtain p where args: "shift_args params callback = (p, ArgFunction cb)" and p: "own_props p = ps"
    using shift_args_shape [OF assms(3)] by blast
  show ?thesis
    unfolding priv_get_ok [OF args assms(1,2)] p
    by (simp add: heap_set_authorization set_authorization_def map_of_utils_merge Let_def
        split: option.splits)
qed

theorem get_request_shape_witness:
  "(\<exists>r w'. priv_get example_platform example_client ''/user/1/collection''
       (ArgObject [(''cat'', Str ''watching'')]) (ArgFunction (User quiet_callback)) example_world =
       (Inr (RetThis example_client), w') \<and>
     sent w' = [r] \<and> req_method r = ''GET'' \<and> req_host r = ''api.bgm.tv'' \<and>
     req_path r = ''/user/1/collection?source=bgm1&cat=watching'' \<and>
     req_headers r = default_headers @ [(''Authorization'', Str ''Bearer tok'')]) \<and>
   (\<exists>r w'. priv_get example_platform example_client ''/calendar''
       (ArgFunction (User quiet_callback)) ArgUndefined example_world =
       (Inr (RetThis example_client), w') \<and>
     sent w' = [r] \<and> req_path r = ''/calendar?source=bgm1'') \<and>
   (\<exists>r w'. priv_get example_platform example_client ''/calendar''
       (ArgObject [(''1'', Str ''x'')]) (ArgFunction (User quiet_callback)) example_world =
       (Inr (RetThis example_client), w') \<and>
     sent w' = [r] \<and> req_path r = ''/calendar?1=x&source=bgm1'') \<and>
   (\<exists>r w'. priv_get example_platform anonymous_client ''/calendar''
       ArgUndefined (ArgFunction (User quiet_callback)) example_world =
       (Inr (RetThis anonymous_client), w') \<and>
     sent w' = [r] \<and> req_method r = ''GET'' \<and> req_host r = ''api.bgm.tv'' \<and>
     req_path r = ''/calendar'' \<and>
     req_headers r = default_headers)"
proof -
  have path: "take 1 ''/calendar'' = ''/''" "take 1 ''/user/1/collection'' = ''/''"
    by simp_all
  have proto: "protocolName example_client = ''http'' \<or> protocolName example_client = ''https''"
    by (simp add: protocolName_def example_client_def)
  have proto': "protocolName anonymous_client = ''http'' \<or> protocolName anonymous_client = ''https''"
    by (simp add: protocolName_def anonymous_client_def)
  have "\<exists>r w'. priv_get example_platform example_client ''/user/1/collection''
       (ArgObject [(''cat'', Str ''watching'')]) (ArgFunction (User quiet_callback)) example_world =
       (Inr (RetThis example_client), w') \<and>
     sent w' = [r] \<and> req_method r = ''GET'' \<and> req_host r = ''api.bgm.tv'' \<and>
     req_path r = ''/user/1/collection?source=bgm1&cat=watching'' \<and>
     req_headers r = default_headers @ [(''Authorization'', Str ''Bearer tok'')]"
    using get_request_shape [OF path(2) proto, where params = "ArgObject [(''cat'', Str ''watching'')]"
        and ps = "[(''cat'', Str ''watching'')]" and callback = "ArgFunction (User quiet_callback)"
        and cb = "User quiet_callback" and P = example_platform and w = example_world]
    by (auto simp: example_defs utils_merge_def assign_def)
  moreover have "\<exists>r w'. priv_get example_platform example_client ''/calendar''
       (ArgFunction (User quiet_callback)) ArgUndefined example_world =
       (Inr (RetThis example_client), w') \<and>
     sent w' = [r] \<and> req_path r = ''/calendar?source=bgm1''"
    using get_request_shape [OF path(1) proto, where params = "ArgFunction (User quiet_callback)"
        and ps = "[]" and callback = ArgUndefined
        and cb = "User quiet_callback" and P = example_platform and w = example_world]
    by (auto simp: example_defs utils_merge_def assign_def)
  moreover have "\<exists>r w'. priv_get example_platform example_client ''/calendar''
       (ArgObject [(''1'', Str ''x'')]) (ArgFunction (User quiet_callback)) example_world =
       (Inr (RetThis example_client), w') \<and>
     sent w' = [r] \<and> req_path r = ''/calendar?1=x&source=bgm1''"
    using get_request_shape [OF path(1) proto, where params = "ArgObject [(''1'', Str ''x'')]"
        and ps = "[(''1'', Str ''x'')]" and callback = "ArgFunction (User quiet_callback)"
        and cb = "User quiet_callback" and P = example_platform and w = example_world]
    by (auto simp: example_defs utils_merge_def assign_def)
  moreover have "\<exists>r w'. priv_get example_platform anonymous_client ''/calendar''
       ArgUndefined (ArgFunction (User quiet_callback)) example_world =
       (Inr (RetThis anonymous_client), w') \<and>
     sent w' = [r] \<and> req_method r = ''GET'' \<and> req_host r = ''api.bgm.tv'' \<and>
     req_path r = ''/calendar'' \<and>
     req_headers r = default_headers"
    using get_request_shape [OF path(1) proto', where params = ArgUndefined
        and ps = "[]" and callback = "ArgFunction (User quiet_callback)"
        and cb = "User quiet_callback" and P = example_platform and w = example_world]
    by (auto simp: example_defs utils_merge_def assign_def)
  ultimately show ?thesis
    by blast
qed

text \<open>
  C8, as stated, fails: with the application identifier \<^verbatim>\<open>bgm1\<close> configured, the call
  \<^verbatim>\<open>_get('/calendar', {source: 'other'}, cb)\<close> sends \<^verbatim>\<open>source=other\<close>; the application
  identifier is not in the request.
\<close>

theorem own_source_parameter_wins:
  "app_id (options example_client) = Some ''bgm1'' \<and>
   map req_path (sent (snd (priv_get example_platform example_client ''/calendar''
       (ArgObject [(''source'', Str ''other'')]) (ArgFunction (User quiet_callback))
       example_world))) = [''/calendar?source=other'']"
  by (simp add: example_defs model_defs)

text \<open>
  C9, as amended. A call of \<^verbatim>\<open>_post\<close> under the same conditions hands exactly one request
  to the transport and returns the client. The request is a POST whose body is the query
  string of the parameters of the call; the application identifier is not among them: it
  goes to the path, which is \<^verbatim>\<open>encodeURI\<close> of the path of the call followed, when an
  application identifier is configured, by \<^verbatim>\<open>?\<close> and the query string of
  \<^verbatim>\<open>{source: app_id}\<close>. The headers are the client's merged over
  \<^verbatim>\<open>{'Content-Length': post_data.length}\<close>, with the bearer token when configured: what is
  sent under \<^verbatim>\<open>Content-Length\<close> is the value of the client's own headers when they set
  that name, and the length of the body otherwise.
\<close>

theorem post_request_shape:
  assumes "take 1 url = ''/''"
    and "protocolName this = ''http'' \<or> protocolName this = ''https''"
    and "(params = ArgObject ps \<and> callback = ArgFunction cb) \<or>
      (params = ArgUndefined \<and> callback = ArgFunction cb \<and> ps = []) \<or>
      (params = ArgFunction cb \<and> ps = [])"
  shows "\<exists>r w'. priv_post P this url params callback w = (Inr (RetThis this), w') \<and>
    sent w' = sent w @ [r] \<and>
    req_method r = ''POST'' \<and>
    req_host r = rest_base (options this) \<and>
    req_handler r = cb \<and>
    req_body r = querystring_stringify P ps \<and>
    req_path r = encodeURI P url @
      (case app_id (options this) of
         Some a \<Rightarrow> ''?'' @ querystring_stringify P [(''source'', Str a)]
       | None \<Rightarrow> []) \<and>
    req_headers r =
      (case access_token (options this) of
         Some t \<Rightarrow> assign ''Authorization'' (Str (''Bearer '' @ t))
           (utils_merge [(''Content-Length'', Num (length (req_body r)))]
              (heap w (headers (options this))))
       | None \<Rightarrow>
           utils_merge [(''Content-Length'', Num (length (req_body r)))]
             (heap w (headers (options this)))) \<and>
    map_of (req_headers r) ''Content-Length'' =
      (case map_of (rev (heap w (headers (options this)))) ''Content-Length'' of
         Some v \<Rightarrow> Some v
       | None \<Rightarrow> Some (Num (length (req_body r))))"
proof -
  obtain p where args: "shift_args params callback = (p, ArgFunction cb)" and p: "own_props p = ps"
    using shift_args_shape [OF assms(3)] by blast
  have "map_of (case tok of
            Some t \<Rightarrow> assign ''Authorization'' (Str (''Bearer '' @ t))
                        (utils_merge [(''Content-Length'', Num n)] hs)
          | None \<Rightarrow> utils_merge [(''Content-Length'', Num n)] hs) ''Content-Length'' =
      (case map_of (rev hs) ''Content-Length'' of Some v \<Rightarrow> Some v | None \<Rightarrow> Some (Num n))"
    for tok n and hs :: obj
    by (simp add: map_of_assign map_of_utils_merge map_add_def split: option.splits)
  then show ?thesis
    unfolding priv_post_ok [OF args assms(1,2)] p
    by (simp cong: option.case_cong)
qed

theorem post_request_shape_witness:
  "\<exists>r w'. priv_post example_platform example_client ''/collection/123/create''
       (ArgObject [(''status'', Str ''wish'')]) (ArgFunction (User quiet_callback)) example_world =
       (Inr (RetThis example_client), w') \<and>
     sent w' = [r] \<and> req_method r = ''POST'' \<and>
     req_body r = ''status=wish'' \<and>
     req_path r = ''/collection/123/create?source=bgm1'' \<and>
     req_headers r =
       [(''Content-Length'', Num 11), (''Accept'', Str ''*/*''),
        (''Content-Type'', Str ''application/x-www-form-urlencoded''),
        (''Connection'', Str ''close''),
        (''User-Agent'', Str ''node-bangumi/1.0.0''),
        (''Authorization'', Str ''Bearer tok'')] \<and>
     map_of (req_headers r) ''Content-Length'' = Some (Num (length (req_body r)))"
proof -
  have path: "take 1 ''/collection/123/create'' = ''/''"
    by simp
  have proto: "protocolName example_client = ''http'' \<or> protocolName example_client = ''https''"
    by (simp add: protocolName_def example_client_def)
  show ?thesis
    using post_request_shape [OF path proto, where params = "ArgObject [(''status'', Str ''wish'')]"
        and ps = "[(''status'', Str ''wish'')]" and callback = "ArgFunction (User quiet_callback)"
        and cb = "User quiet_callback" and P = example_platform and w = example_world]
    by (auto simp: example_defs utils_merge_def assign_def)
qed

text \<open>
  C9, as stated, fails: for a client whose headers are \<^verbatim>\<open>{'Content-Length': '999'}\<close> the
  request with the body \<^verbatim>\<open>status=wish\<close>, of length 11, is sent with \<^verbatim>\<open>Content-Length\<close>
  \<^verbatim>\<open>999\<close>.
\<close>

theorem configured_content_length_wins:
  "map req_body (sent (snd (priv_post example_platform example_client ''/collection/123/create''
       (ArgObject [(''status'', Str ''wish'')]) (ArgFunction (User quiet_callback))
       fixed_length_world))) = [''status=wish''] \<and>
   map req_headers (sent (snd (priv_post example_platform example_client ''/collection/123/create''
       (ArgObject [(''status'', Str ''wish'')]) (ArgFunction (User quiet_callback))
       fixed_length_world))) =
     [[(''Content-Length'', Str ''999''), (''Authorization'', Str ''Bearer tok'')]]"
  by (simp add: example_defs model_defs)

section \<open>The classification of a parsed body\<close>

text \<open>
  C1. A body that parses is not always classified by its \<^verbatim>\<open>error\<close> key. The body
  \<^verbatim>\<open>null\<close> parses to \<^verbatim>\<open>null\<close>, the property test on it throws inside the \<^verbatim>\<open>try\<close> block, and
  the callback of \<^verbatim>\<open>_get\<close> and of \<^verbatim>\<open>_post\<close> is called with a \<^verbatim>\<open>TypeError\<close> and \<^verbatim>\<open>{}\<close>, not
  with \<^verbatim>\<open>(null, null)\<close>. The same happens to an object with a member named
  \<^verbatim>\<open>hasOwnProperty\<close>. For every other parsed value the classification is as stated
  (\<open>on_end_classifies\<close>, \<open>on_end_classifies_quiet\<close>).
\<close>

theorem null_payload_reported_as_error:
  "JSON_parse example_platform ''null'' = Some JNull \<and>
   calls (roundtrip example_platform
      (priv_get example_platform example_client ''/user/1/collection''
         (ArgObject [(''cat'', Str ''watching'')]) (ArgFunction (User quiet_callback)) example_world)
      [Data ''null'', End]) = [(Exn TypeError, Val (JObj []))] \<and>
   calls (roundtrip example_platform
      (priv_post example_platform example_client ''/collection/1/create''
         (ArgObject [(''status'', Str ''wish'')]) (ArgFunction (User quiet_callback)) example_world)
      [Data ''null'', End]) = [(Exn TypeError, Val (JObj []))] \<and>
   calls (roundtrip example_platform
      (priv_get example_platform example_client ''/calendar''
         (ArgFunction (User quiet_callback)) ArgUndefined example_world)
      [Data ''{\"hasOwnProperty\":1}'', End]) = [(Exn TypeError, Val (JObj []))]"
  by (simp add: example_defs model_defs)

section \<open>The number of completions\<close>

text \<open>
  C4. The callback is called inside the \<^verbatim>\<open>try\<close> block, so what it throws is caught by
  the \<^verbatim>\<open>catch\<close> clause, which calls it again: a callback that throws when it is first
  called is called twice for one response, by \<^verbatim>\<open>_get\<close> and by \<^verbatim>\<open>_post\<close>.
\<close>

theorem throwing_callback_called_twice:
  "calls (roundtrip example_platform
      (priv_get example_platform example_client ''/calendar''
         (ArgFunction (User throwing_callback)) ArgUndefined example_world)
      [Data ''{\"shows\":[]}'', End]) =
     [(Val JNull, Val (JObj [(''shows'', JArr [])])), (Val (JStr ''boom''), Val (JObj []))] \<and>
   calls (roundtrip example_platform
      (priv_post example_platform example_client ''/collection/1/create''
         (ArgObject [(''status'', Str ''wish'')]) (ArgFunction (User throwing_callback)) example_world)
      [Data ''{\"error\":\"need login\"}'', End]) =
     [(Val (JObj [(''error'', JStr ''need login'')]), Val (JObj [])),
      (Val (JStr ''boom''), Val (JObj []))]"
  by (simp add: example_defs model_defs)

section \<open>The client's configuration\<close>

text \<open>
  C2. With an access token configured, \<^verbatim>\<open>_get\<close> writes the \<^verbatim>\<open>Authorization\<close> header into
  the client's own header object, which the request shares: after the call the object at
  \<^verbatim>\<open>this.options.headers\<close> has one property more than before. \<^verbatim>\<open>_post\<close>, which writes to
  the merged copy, leaves the client's header object as it was
  (\<open>priv_post_keeps_heap\<close> for every call).
\<close>

theorem get_writes_client_headers:
  "heap example_world (headers (options example_client)) = default_headers \<and>
   heap (snd (priv_get example_platform example_client ''/calendar''
        (ArgFunction (User quiet_callback)) ArgUndefined example_world))
      (headers (options example_client)) =
     default_headers @ [(''Authorization'', Str ''Bearer tok'')] \<and>
   heap (snd (priv_post example_platform example_client ''/collection/1/create''
        (ArgObject [(''status'', Str ''wish'')]) (ArgFunction (User quiet_callback)) example_world))
      (headers (options example_client)) =
     default_headers"
  by (simp add: example_defs model_defs)

section \<open>Return values and the time of completion\<close>

text \<open>
  C3, as amended. For every call with a path starting with \<^verbatim>\<open>/\<close> and a protocol of the
  table: \<^verbatim>\<open>_get\<close> and \<^verbatim>\<open>_post\<close>, given a callback in either place, return the client
  itself. The public \<^verbatim>\<open>get\<close> and \<^verbatim>\<open>post\<close> return what the dual-mode adapter returns: a
  new deferred value, still pending at that moment, when their third argument is not a
  function, which is the case in the call \<^verbatim>\<open>get(url, callback)\<close>, and \<^verbatim>\<open>undefined\<close> when it
  is a function. No completion has been delivered when any of the four returns:
  completions are made by the response listeners only.
\<close>

theorem executors_return_client:
  assumes "take 1 url = ''/''"
    and "protocolName this = ''http'' \<or> protocolName this = ''https''"
  shows "(is_function params \<or> is_function callback \<longrightarrow>
       fst (priv_get P this url params callback w) = Inr (RetThis this) \<and>
       fst (priv_post P this url params callback w) = Inr (RetThis this)) \<and>
    (\<not> is_function callback \<longrightarrow>
       fst (get P this url params callback w) = Inr (RetDeferred (next_ref w)) \<and>
       promises (snd (get P this url params callback w)) (next_ref w) = Pending \<and>
       fst (post P this url params callback w) = Inr (RetDeferred (next_ref w)) \<and>
       promises (snd (post P this url params callback w)) (next_ref w) = Pending) \<and>
    (is_function callback \<longrightarrow>
       fst (get P this url params callback w) = Inr RetUndefined \<and>
       fst (post P this url params callback w) = Inr RetUndefined) \<and>
    calls (snd (priv_get P this url params callback w)) = calls w \<and>
    calls (snd (priv_post P this url params callback w)) = calls w \<and>
    calls (snd (get P this url params callback w)) = calls w \<and>
    calls (snd (post P this url params callback w)) = calls w"
proof -
  have "fst (priv_get P this url params callback w) = Inr (RetThis this)"
    and "fst (priv_post P this url params callback w) = Inr (RetThis this)"
    if supplied: "is_function params \<or> is_function callback"
  proof -
    obtain p c where args: "shift_args params callback = (p, ArgFunction c)"
      using shift_args_supplied [OF supplied] by blast
    show "fst (priv_get P this url params callback w) = Inr (RetThis this)"
      and "fst (priv_post P this url params callback w) = Inr (RetThis this)"
      by (simp_all add: priv_get_ok [OF args assms] priv_post_ok [OF args assms])
  qed
  moreover have "fst (get P this url params callback w) = Inr (RetDeferred (next_ref w))"
    and "promises (snd (get P this url params callback w)) (next_ref w) = Pending"
    and "fst (post P this url params callback w) = Inr (RetDeferred (next_ref w))"
    and "promises (snd (post P this url params callback w)) (next_ref w) = Pending"
    if "\<not> is_function callback"
    by (simp_all add: get_deferred [OF that assms] post_deferred [OF that assms]
        promises_priv_get promises_priv_post)
  moreover have "fst (get P this url params callback w) = Inr RetUndefined"
    and "fst (post P this url params callback w) = Inr RetUndefined"
    if third: "is_function callback"
  proof -
    obtain cb where cb: "callback = ArgFunction cb"
      using third by (cases callback) simp_all
    show "fst (get P this url params callback w) = Inr RetUndefined"
      and "fst (post P this url params callback w) = Inr RetUndefined"
      by (simp_all add: cb get_callback_mode [OF assms] post_callback_mode [OF assms])
  qed
  ultimately show ?thesis
    by (simp add: calls_priv_get calls_priv_post calls_get calls_post)
qed

theorem executors_return_client_witness:
  "fst (priv_get example_platform example_client ''/calendar''
        (ArgFunction (User quiet_callback)) ArgUndefined example_world) =
     Inr (RetThis example_client) \<and>
   fst (priv_post example_platform example_client ''/calendar''
        (ArgFunction (User quiet_callback)) ArgUndefined example_world) =
     Inr (RetThis example_client) \<and>
   calls (snd (get example_platform example_client ''/calendar''
        (ArgFunction (User quiet_callback)) ArgUndefined example_world)) = [] \<and>
   fst (get example_platform example_client ''/calendar''
        (ArgFunction (User quiet_callback)) ArgUndefined example_world) = Inr (RetDeferred 1) \<and>
   promises (snd (get example_platform example_client ''/calendar''
        (ArgFunction (User quiet_callback)) ArgUndefined example_world)) 1 = Pending \<and>
   fst (get example_platform example_client ''/calendar''
        (ArgObject []) (ArgFunction (User quiet_callback)) example_world) = Inr RetUndefined \<and>
   calls (snd (get example_platform example_client ''/calendar''
        (ArgObject []) (ArgFunction (User quiet_callback)) example_world)) = []"
proof -
  have path: "take 1 ''/calendar'' = ''/''"
    by simp
  have proto: "protocolName example_client = ''http'' \<or> protocolName example_client = ''https''"
    by (simp add: protocolName_def example_client_def)
  have fresh: "next_ref example_world = 1" and none: "calls example_world = []"
    by (simp_all add: example_world_def)
  show ?thesis
    using executors_return_client [OF path proto, of "ArgFunction (User quiet_callback)"
        ArgUndefined example_platform example_world]
      executors_return_client [OF path proto, of "ArgObject []"
        "ArgFunction (User quiet_callback)" example_platform example_world]
    by (simp add: fresh none)
qed

text \<open>
  C3, as stated, fails: \<^verbatim>\<open>client.get('/calendar', cb)\<close> is a valid call with a callback, and
  it returns a deferred value, not the client.
\<close>

theorem get_returns_deferred_not_client:
  "fst (get example_platform example_client ''/calendar'' (ArgFunction (User quiet_callback))
        ArgUndefined example_world) = Inr (RetDeferred 1) \<and>
   fst (get example_platform example_client ''/calendar'' (ArgFunction (User quiet_callback))
        ArgUndefined example_world) \<noteq> Inr (RetThis example_client)"
  by (simp add: get_def promiseOrCallback_def without_callback_def statement_def
      example_defs model_defs)

section \<open>The endpoint methods and their return values\<close>

text \<open>
  C10. With a protocol of the table, \<^verbatim>\<open>calendar\<close> returns the client whatever it is passed,
  also when the callback is omitted, while the call of \<^verbatim>\<open>get\<close> inside it has returned a
  deferred value, which is dropped; the effects are those of that call. \<^verbatim>\<open>user\<close> and \<^verbatim>\<open>ep\<close>
  make the same kind of call and return its deferred value; \<^verbatim>\<open>subject\<close>,
  \<^verbatim>\<open>collectionByUser\<close>, \<^verbatim>\<open>search\<close>, \<^verbatim>\<open>collectionBySubject\<close>, \<^verbatim>\<open>progress\<close>,
  \<^verbatim>\<open>createCollection\<close>, \<^verbatim>\<open>updateEp\<close>, \<^verbatim>\<open>updateEps\<close> and \<^verbatim>\<open>auth\<close> return the result of their
  call of \<^verbatim>\<open>get\<close> or \<^verbatim>\<open>post\<close>.
\<close>

theorem calendar_returns_client:
  assumes "protocolName this = ''http'' \<or> protocolName this = ''https''"
  shows "fst (get P this ''/calendar'' callback ArgUndefined w) = Inr (RetDeferred (next_ref w)) \<and>
    calendar P this callback w =
      (Inr (RetThis this), snd (get P this ''/calendar'' callback ArgUndefined w)) \<and>
    user P this username callback w = get P this (''/user/'' @ username) callback ArgUndefined w \<and>
    fst (user P this username callback w) = Inr (RetDeferred (next_ref w)) \<and>
    ep P this subject_id callback w =
      get P this (''/subject/'' @ subject_id @ ''/ep'') callback ArgUndefined w \<and>
    fst (ep P this subject_id callback w) = Inr (RetDeferred (next_ref w)) \<and>
    subject P this subject_id params cb3 w = get P this (''/subject/'' @ subject_id) params cb3 w \<and>
    collectionByUser P this username params cb3 w =
      get P this (''/user/'' @ username @ ''/collection'') params cb3 w \<and>
    search P this kw params cb3 w =
      get P this (''/search/subject/'' @ kw) params cb3 w \<and>
    collectionBySubject P this subject_id params cb3 w =
      get P this (''/collection/'' @ subject_id) params cb3 w \<and>
    progress P this username params cb3 w =
      get P this (''/user/'' @ username @ ''/progress'') params cb3 w \<and>
    createCollection P this subject_id params cb3 w =
      post P this (''/collection/'' @ subject_id @ ''/create'') params cb3 w \<and>
    updateEp P this ep_id status params cb3 w =
      post P this (''/ep/'' @ ep_id @ ''/status/'' @ status) params cb3 w \<and>
    updateEps P this subject_id params cb3 w =
      post P this (''/subject/'' @ subject_id @ ''/update/watched_eps'') params cb3 w \<and>
    auth P this params cb3 w =
      post P this ''/auth'' params cb3
        (w\<lparr>console := console w @ [''auth() will be deprecated in the near future'']\<rparr>)"
proof -
  have undef: "\<not> is_function ArgUndefined"
    by simp
  have "get P this url callback ArgUndefined w =
      (Inr (RetDeferred (next_ref w)),
       snd (priv_get P this url callback (ArgFunction (Settle (next_ref w)))
         (w\<lparr>next_ref := Suc (next_ref w), promises := (promises w)(next_ref w := Pending)\<rparr>)))"
    if "take 1 url = ''/''" for url
    by (rule get_deferred [OF undef that assms])
  then show ?thesis
    by (simp add: calendar_def user_def ep_def subject_def collectionByUser_def search_def
        collectionBySubject_def progress_def createCollection_def updateEp_def updateEps_def
        auth_def)
qed

theorem calendar_returns_client_witness:
  "fst (calendar example_platform example_client ArgUndefined example_world) =
     Inr (RetThis example_client) \<and>
   fst (get example_platform example_client ''/calendar'' ArgUndefined ArgUndefined example_world) =
     Inr (RetDeferred 1) \<and>
   fst (user example_platform example_client ''1'' ArgUndefined example_world) =
     Inr (RetDeferred 1) \<and>
   fst (ep example_platform example_client ''1'' ArgUndefined example_world) =
     Inr (RetDeferred 1)"
proof -
  have proto: "protocolName example_client = ''http'' \<or> protocolName example_client = ''https''"
    by (simp add: protocolName_def example_client_def)
  have fresh: "next_ref example_world = 1"
    by (simp add: example_world_def)
  show ?thesis
    using calendar_returns_client [OF proto, where P = example_platform and callback = ArgUndefined
        and w = example_world and username = "''1''" and subject_id = "''1''"
        and params = ArgUndefined and ?cb3.0 = ArgUndefined and kw = "''k''"
        and ep_id = "''1''" and status = "''watched''"]
    unfolding fresh
    by (elim conjE) (simp only: fst_conv simp_thms)
qed

section \<open>Deferred value and callback\<close>

text \<open>
  C7, as amended. A call of the public \<^verbatim>\<open>get\<close> or \<^verbatim>\<open>post\<close> that passes no function,
  with a path starting with \<^verbatim>\<open>/\<close> and a protocol of the table, returns a new deferred
  value, pending at that moment. After any sequence of response events its state is given by the first
  completion that the same call with a callback delivers to that callback for the same
  events: pending when there is none, resolved with the value when the error is \<^verbatim>\<open>null\<close>,
  rejected with the error otherwise.
\<close>

theorem deferred_matches_callback:
  assumes "\<not> is_function params" and "\<not> is_function callback" and "take 1 url = ''/''"
    and "protocolName this = ''http'' \<or> protocolName this = ''https''"
  shows "fst (get P this url params callback w) = Inr (RetDeferred (next_ref w)) \<and>
    promises (snd (get P this url params callback w)) (next_ref w) = Pending \<and>
    promises (roundtrip P (get P this url params callback w) es) (next_ref w) =
      (case drop (length (calls w))
             (calls (roundtrip P (get P this url params (ArgFunction (User cb)) w) es)) of
         [] \<Rightarrow> Pending
       | (e, v) # rest \<Rightarrow> if e = Val JNull then Resolved v else Rejected e) \<and>
    fst (post P this url params callback w) = Inr (RetDeferred (next_ref w)) \<and>
    promises (snd (post P this url params callback w)) (next_ref w) = Pending \<and>
    promises (roundtrip P (post P this url params callback w) es) (next_ref w) =
      (case drop (length (calls w))
             (calls (roundtrip P (post P this url params (ArgFunction (User cb)) w) es)) of
         [] \<Rightarrow> Pending
       | (e, v) # rest \<Rightarrow> if e = Val JNull then Resolved v else Rejected e)"
proof -
  let ?d = "next_ref w"
  let ?w0 = "w\<lparr>next_ref := Suc ?d, promises := (promises w)(?d := Pending)\<rparr>"
  let ?g1 = "snd (priv_get P this url params (ArgFunction (Settle ?d)) ?w0)"
  let ?g2 = "snd (priv_get P this url params (ArgFunction (User cb)) w)"
  let ?p1 = "snd (priv_post P this url params (ArgFunction (Settle ?d)) ?w0)"
  let ?p2 = "snd (priv_post P this url params (ArgFunction (User cb)) w)"
  note url = assms(3) and proto = assms(4)
  have g: "get P this url params callback w = (Inr (RetDeferred ?d), ?g1)"
    by (rule get_deferred [OF assms(2) url proto])
  have p: "post P this url params callback w = (Inr (RetDeferred ?d), ?p1)"
    by (rule post_deferred [OF assms(2) url proto])
  have gc: "get P this url params (ArgFunction (User cb)) w = (Inr RetUndefined, ?g2)"
    by (rule get_callback_mode [OF url proto])
  have pc: "post P this url params (ArgFunction (User cb)) w = (Inr RetUndefined, ?p2)"
    by (rule post_callback_mode [OF url proto])
  have pend: "promises ?g1 ?d = Pending" "promises ?p1 ?d = Pending"
    by (simp_all add: promises_priv_get promises_priv_post)
  have same: "calls ?g2 = calls w" "calls ?p2 = calls w"
    by (simp_all add: calls_priv_get calls_priv_post)
  have rg1: "roundtrip P (Inr (RetDeferred ?d), ?g1) es = snd (respond P (Settle ?d) es [] ?g1)"
    by (simp add: roundtrip_priv_get [OF shift_args_callback [OF assms(1)] url proto])
  have rg2: "roundtrip P (Inr RetUndefined, ?g2) es = snd (respond P (User cb) es [] ?g2)"
    by (simp add: roundtrip_priv_get [OF shift_args_callback [OF assms(1)] url proto])
  have rp1: "roundtrip P (Inr (RetDeferred ?d), ?p1) es = snd (respond P (Settle ?d) es [] ?p1)"
    by (simp add: roundtrip_priv_post [OF shift_args_callback [OF assms(1)] url proto])
  have rp2: "roundtrip P (Inr RetUndefined, ?p2) es = snd (respond P (User cb) es [] ?p2)"
    by (simp add: roundtrip_priv_post [OF shift_args_callback [OF assms(1)] url proto])
  have tg: "promises (snd (respond P (Settle ?d) es [] ?g1)) ?d =
      (case drop (length (calls w)) (calls (snd (respond P (User cb) es [] ?g2))) of
         [] \<Rightarrow> Pending
       | (e, v) # rest \<Rightarrow> if e = Val JNull then Resolved v else Rejected e)"
    using Settle_tracks_first_call [of P ?d es "[]" ?g1 ?g2 cb]
    by (simp only: pend same settle_Pending)
  have tp: "promises (snd (respond P (Settle ?d) es [] ?p1)) ?d =
      (case drop (length (calls w)) (calls (snd (respond P (User cb) es [] ?p2))) of
         [] \<Rightarrow> Pending
       | (e, v) # rest \<Rightarrow> if e = Val JNull then Resolved v else Rejected e)"
    using Settle_tracks_first_call [of P ?d es "[]" ?p1 ?p2 cb]
    by (simp only: pend same settle_Pending)
  show ?thesis
    unfolding g p gc pc rg1 rg2 rp1 rp2 fst_conv snd_conv
    using pend tg tp by blast
qed


theorem deferred_matches_callback_witness:
  "fst (get example_platform example_client ''/calendar'' ArgUndefined ArgUndefined example_world) =
     Inr (RetDeferred 1) \<and>
   calls (roundtrip example_platform
      (get example_platform example_client ''/calendar'' ArgUndefined
         (ArgFunction (User quiet_callback)) example_world)
      [Data ''{\"shows\":[]}'', End]) = [(Val JNull, Val (JObj [(''shows'', JArr [])]))] \<and>
   promises (roundtrip example_platform
      (get example_platform example_client ''/calendar'' ArgUndefined ArgUndefined example_world)
      [Data ''{\"shows\":[]}'', End]) 1 = Resolved (Val (JObj [(''shows'', JArr [])])) \<and>
   calls (roundtrip example_platform
      (post example_platform example_client ''/collection/123/create''
         (ArgObject [(''status'', Str ''wish'')]) (ArgFunction (User quiet_callback)) example_world)
      [Data ''{\"error\":\"need login\"}'', End]) =
     [(Val (JObj [(''error'', JStr ''need login'')]), Val (JObj []))] \<and>
   promises (roundtrip example_platform
      (post example_platform example_client ''/collection/123/create''
         (ArgObject [(''status'', Str ''wish'')]) ArgUndefined example_world)
      [Data ''{\"error\":\"need login\"}'', End]) 1 =
     Rejected (Val (JObj [(''error'', JStr ''need login'')]))"
proof -
  have proto: "protocolName example_client = ''http'' \<or> protocolName example_client = ''https''"
    by (simp add: protocolName_def example_client_def)
  have fresh: "next_ref example_world = 1" and none: "calls example_world = []"
    by (simp_all add: example_world_def)
  have c1: "calls (roundtrip example_platform
      (get example_platform example_client ''/calendar'' ArgUndefined
         (ArgFunction (User quiet_callback)) example_world)
      [Data ''{\"shows\":[]}'', End]) = [(Val JNull, Val (JObj [(''shows'', JArr [])]))]"
    by (simp add: get_def promiseOrCallback_def statement_def example_defs model_defs)
  have c2: "calls (roundtrip example_platform
      (post example_platform example_client ''/collection/123/create''
         (ArgObject [(''status'', Str ''wish'')]) (ArgFunction (User quiet_callback)) example_world)
      [Data ''{\"error\":\"need login\"}'', End]) =
     [(Val (JObj [(''error'', JStr ''need login'')]), Val (JObj []))]"
    by (simp add: post_def promiseOrCallback_def statement_def example_defs model_defs)
  show ?thesis
    using deferred_matches_callback [of ArgUndefined ArgUndefined "''/calendar''" example_client
        example_platform example_world "[Data ''{\"shows\":[]}'', End]" quiet_callback]
      deferred_matches_callback [of "ArgObject [(''status'', Str ''wish'')]" ArgUndefined
        "''/collection/123/create''" example_client
        example_platform example_world "[Data ''{\"error\":\"need login\"}'', End]" quiet_callback]
      proto
    by (simp add: c1 c2 fresh none)
qed

text \<open>
  C7, as stated, fails on a call that does not pass the executor's checks.
  \<^verbatim>\<open>get('calendar')\<close> without callback returns, when the promise constructor traps, a
  deferred value that is rejected with the invalid-path failure, while the same call with
  a callback throws and its callback receives nothing, whatever the response; when the
  constructor does not trap, the call throws and returns no deferred value.
\<close>

theorem deferred_rejected_without_completion:
  "fst (get example_platform example_client ''calendar'' ArgUndefined ArgUndefined example_world) =
     Inr (RetDeferred 1) \<and>
   promises (roundtrip example_platform
      (get example_platform example_client ''calendar'' ArgUndefined ArgUndefined example_world)
      [End]) 1 = Rejected (Val (JStr ''FAIL: INVALID URL.'')) \<and>
   fst (get example_platform example_client ''calendar'' ArgUndefined
      (ArgFunction (User quiet_callback)) example_world) =
     Inl (Val (JStr ''FAIL: INVALID URL.'')) \<and>
   calls (roundtrip example_platform
      (get example_platform example_client ''calendar'' ArgUndefined
         (ArgFunction (User quiet_callback)) example_world)
      [End]) = [] \<and>
   fst (get (example_platform\<lparr>executor_traps := False\<rparr>) example_client ''calendar''
      ArgUndefined ArgUndefined example_world) =
     Inl (Val (JStr ''FAIL: INVALID URL.''))"
  by (simp add: get_def promiseOrCallback_def without_callback_def statement_def reject_def
      example_defs model_defs)

end
